theory Spec2Isabelle
  imports Main "HOL-Library.Sublist"
begin

section \<open>Python values\<close>

text \<open>
  The payment agent passes around untyped Python dictionaries built from JSON. They are
  embedded in one universal value type. A dictionary is an association list in insertion
  order with unique keys. A float is carried by its \<open>repr\<close> (the agent only copies the
  amount into request bodies and applies \<open>str\<close> to it).
\<close>

datatype pyval =
    JNull
  | JBool bool
  | JInt int
  | JFloat string
  | JStr string
  | JArr "pyval list"
  | JObj "(string \<times> pyval) list"

type_synonym pydict = "(string \<times> pyval) list"

datatype exn =
    AttributeError string
  | TypeError string
  | KeyError string
  | RuntimeError string
  | LibraryError string

fun str_exn :: "exn \<Rightarrow> string" where
  "str_exn (AttributeError m) = m"
| "str_exn (TypeError m) = m"
| "str_exn (KeyError k) = [CHR 0x27] @ k @ [CHR 0x27]"
| "str_exn (RuntimeError m) = m"
| "str_exn (LibraryError m) = m"

fun type_name :: "pyval \<Rightarrow> string" where
  "type_name JNull = ''NoneType''"
| "type_name (JBool _) = ''bool''"
| "type_name (JInt _) = ''int''"
| "type_name (JFloat _) = ''float''"
| "type_name (JStr _) = ''str''"
| "type_name (JArr _) = ''list''"
| "type_name (JObj _) = ''dict''"

text \<open>Truthiness, as used by \<open>if x\<close>, \<open>x or y\<close>.\<close>

fun truthy :: "pyval \<Rightarrow> bool" where
  "truthy JNull = False"
| "truthy (JBool b) = b"
| "truthy (JInt n) = (n \<noteq> 0)"
| "truthy (JFloat r) = (r \<noteq> ''0.0'' \<and> r \<noteq> ''-0.0'')"
| "truthy (JStr s) = (s \<noteq> [])"
| "truthy (JArr xs) = (xs \<noteq> [])"
| "truthy (JObj d) = (d \<noteq> [])"

definition truthy_str :: "string option \<Rightarrow> bool" where
  "truthy_str s = (case s of None \<Rightarrow> False | Some t \<Rightarrow> t \<noteq> [])"

definition py_or :: "string option \<Rightarrow> string option \<Rightarrow> string option" where
  "py_or a b = (if truthy_str a then a else b)"

definition opt_str :: "string option \<Rightarrow> pyval" where
  "opt_str s = (case s of None \<Rightarrow> JNull | Some t \<Rightarrow> JStr t)"

subsection \<open>Dictionary operations\<close>

definition dict_get :: "pydict \<Rightarrow> string \<Rightarrow> pyval \<Rightarrow> pyval" where
  "dict_get d k dflt = (case map_of d k of None \<Rightarrow> dflt | Some v \<Rightarrow> v)"

fun dict_set :: "pydict \<Rightarrow> string \<Rightarrow> pyval \<Rightarrow> pydict" where
  "dict_set [] k v = [(k, v)]"
| "dict_set ((k', v') # d) k v = (if k' = k then (k, v) # d else (k', v') # dict_set d k v)"

definition dict_setdefault :: "pydict \<Rightarrow> string \<Rightarrow> pyval \<Rightarrow> pydict" where
  "dict_setdefault d k v = (case map_of d k of None \<Rightarrow> d @ [(k, v)] | Some _ \<Rightarrow> d)"

text \<open>\<open>v.get(k, dflt)\<close> on an arbitrary value: only a dict has the method.\<close>

fun py_get :: "pyval \<Rightarrow> string \<Rightarrow> pyval \<Rightarrow> exn + pyval" where
  "py_get (JObj d) k dflt = Inr (dict_get d k dflt)"
| "py_get v k dflt =
     Inl (AttributeError ([CHR 0x27] @ type_name v @ [CHR 0x27] @ '' object has no attribute ''
            @ [CHR 0x27] @ ''get'' @ [CHR 0x27]))"

text \<open>\<open>d[k1][k2] = v\<close>: the inner value must be a dict already stored under \<open>k1\<close>.\<close>

definition set_item2 :: "pydict \<Rightarrow> string \<Rightarrow> string \<Rightarrow> pyval \<Rightarrow> exn + pydict" where
  "set_item2 d k1 k2 v =
     (case map_of d k1 of
        None \<Rightarrow> Inl (KeyError k1)
      | Some (JObj inner) \<Rightarrow> Inr (dict_set d k1 (JObj (dict_set inner k2 v)))
      | Some (JArr _) \<Rightarrow> Inl (TypeError ''list indices must be integers or slices, not str'')
      | Some w \<Rightarrow> Inl (TypeError ([CHR 0x27] @ type_name w @ [CHR 0x27]
                          @ '' object does not support item assignment'')))"

text \<open>
  The block
  \<^verbatim>\<open>try: d.setdefault("diagnostics", {}); d["diagnostics"][k] = v; ... except Exception: pass\<close>
  keeps whatever was stored before the first failing assignment.
\<close>

fun try_assign :: "pydict \<Rightarrow> (string \<times> pyval) list \<Rightarrow> pydict" where
  "try_assign d [] = d"
| "try_assign d ((k, v) # kvs) =
     (case set_item2 d ''diagnostics'' k v of Inl _ \<Rightarrow> d | Inr d' \<Rightarrow> try_assign d' kvs)"

definition try_attach :: "pydict \<Rightarrow> (string \<times> pyval) list \<Rightarrow> pydict" where
  "try_attach d kvs = try_assign (dict_setdefault d ''diagnostics'' (JObj [])) kvs"

subsection \<open>Comparisons on status values\<close>

text \<open>
  Every \<open>status_code\<close> entry is written by this module, from the integer status of an HTTP
  response or the literal 0, so the comparisons below only ever meet integers. Ordering an
  integer against \<open>None\<close>, a string, a list or a dict raises \<open>TypeError\<close>; a bool counts
  as 0 or 1. A float, being carried by its \<open>repr\<close> only, has no numeric value here and is
  treated like the values that cannot be ordered.
\<close>

fun num_of :: "pyval \<Rightarrow> int option" where
  "num_of (JInt n) = Some n"
| "num_of (JBool b) = Some (if b then 1 else 0)"
| "num_of _ = None"

definition cmp_error :: "string \<Rightarrow> pyval \<Rightarrow> exn" where
  "cmp_error opr v = TypeError ([CHR 0x27] @ opr @ [CHR 0x27]
      @ '' not supported between instances of '' @ [CHR 0x27] @ ''int'' @ [CHR 0x27] @ '' and ''
      @ [CHR 0x27] @ type_name v @ [CHR 0x27])"

text \<open>\<open>200 <= v < 300\<close>\<close>

definition in_2xx :: "pyval \<Rightarrow> exn + bool" where
  "in_2xx v = (case num_of v of None \<Rightarrow> Inl (cmp_error ''<='' v) | Some n \<Rightarrow> Inr (200 \<le> n \<and> n < 300))"

text \<open>\<open>v >= 500\<close>\<close>

definition ge_500 :: "pyval \<Rightarrow> exn + bool" where
  "ge_500 v = (case num_of v of None \<Rightarrow> Inl (cmp_error ''>='' v) | Some n \<Rightarrow> Inr (500 \<le> n))"

text \<open>\<open>v == n\<close> for an integer literal \<open>n\<close>\<close>

definition eq_int :: "pyval \<Rightarrow> int \<Rightarrow> bool" where
  "eq_int v n = (num_of v = Some n)"

subsection \<open>Strings\<close>

definition rstrip_slash :: "string \<Rightarrow> string" where
  "rstrip_slash u = rev (dropWhile (\<lambda>c. c = CHR ''/'') (rev u))"

definition lstrip_slash :: "string \<Rightarrow> string" where
  "lstrip_slash p = dropWhile (\<lambda>c. c = CHR ''/'') p"

definition startswith_0x :: "string \<Rightarrow> bool" where
  "startswith_0x p = (take 2 p = ''0x'')"

text \<open>\<open>if priv and not priv.startswith("0x"): priv = "0x" + priv\<close>\<close>

definition with_0x :: "string option \<Rightarrow> string option" where
  "with_0x priv =
     (case priv of
        None \<Rightarrow> None
      | Some p \<Rightarrow> if p \<noteq> [] \<and> \<not> startswith_0x p then Some (''0x'' @ p) else Some p)"

section \<open>The world outside the module\<close>

text \<open>
  The HTTP client, the JSON parser behind \<open>Response.json()\<close>, the process environment and
  the optional \<open>eth_account\<close> library are parameters. The HTTP answer may depend on
  everything the client has sent before, so one environment covers any facilitator.
\<close>

datatype http_method = GET | POST

record request =
  req_method :: http_method
  req_url :: string
  req_headers :: "(string \<times> string) list"
  req_json :: "pyval option"
  req_timeout :: int

datatype http_outcome =
    Raised string
  | Response int string "(string \<times> string) list"

text \<open>
  \<open>from_key priv\<close> is \<open>Account.from_key(priv).address\<close>; \<open>sign_typed data priv\<close> is the
  hex signature that \<open>encode_structured_data\<close>, \<open>Account.sign_message\<close> and
  \<open>signature.hex()\<close> produce, or the exception one of them (or the import) raises.
\<close>

record account_lib =
  from_key :: "string option \<Rightarrow> exn + string"
  sign_typed :: "pyval \<Rightarrow> string option \<Rightarrow> exn + string"

record env =
  http :: "request list \<Rightarrow> request \<Rightarrow> http_outcome"
  loads :: "string \<Rightarrow> pyval option"
  getenv :: "string \<Rightarrow> string option"
  Account :: "account_lib option"

definition getenv_default :: "env \<Rightarrow> string \<Rightarrow> string \<Rightarrow> string" where
  "getenv_default e k dflt = (case getenv e k of None \<Rightarrow> dflt | Some v \<Rightarrow> v)"

text \<open>\<open>try: payload = r.json() except Exception: payload = {"text": r.text}\<close>\<close>

definition json_or_text :: "env \<Rightarrow> string \<Rightarrow> pyval" where
  "json_or_text e text = (case loads e text of None \<Rightarrow> JObj [(''text'', JStr text)] | Some j \<Rightarrow> j)"

definition headers_dict :: "(string \<times> string) list \<Rightarrow> pyval" where
  "headers_dict hdrs = JObj (map (\<lambda>(k, v). (k, JStr v)) hdrs)"

definition json_headers :: "(string \<times> string) list" where
  "json_headers = [(''Content-Type'', ''application/json'')]"

definition zero_address :: string where
  "zero_address = ''0x0000000000000000000000000000000000000000''"

section \<open>X402PaymentAgent\<close>

text \<open>
  The attributes of the agent that its methods read or write. \<open>http_log\<close> stands for
  \<open>self._http_client\<close>: the requests the client was asked to send, oldest first. The
  \<open>account\<close> attribute is written by \<open>init_wallet\<close> and never read, and the attributes of
  the base class are not touched by this module; both are left out. A method returns its
  value or the exception it raised, together with the agent as it has become.
\<close>

record agent =
  facilitator_url :: string
  wallet_private_key :: "string option"
  network :: "string option"
  wallet_address :: "string option"
  facilitator_info :: pydict
  http_log :: "request list"

text \<open>One call on \<open>self._http_client\<close>: the request is appended to the client's log.\<close>

definition send :: "env \<Rightarrow> agent \<Rightarrow> request \<Rightarrow> http_outcome \<times> agent" where
  "send e s rq = (http e (http_log s) rq, s\<lparr>http_log := http_log s @ [rq]\<rparr>)"

definition list_request :: "agent \<Rightarrow> int \<Rightarrow> request" where
  "list_request s timeout =
     \<lparr>req_method = GET, req_url = rstrip_slash (facilitator_url s) @ ''/list'',
      req_headers = [], req_json = None, req_timeout = timeout\<rparr>"

definition discover_facilitator :: "env \<Rightarrow> agent \<Rightarrow> int \<Rightarrow> (exn + pydict) \<times> agent" where
  "discover_facilitator e s timeout =
     (case send e s (list_request s timeout) of
        (out, s1) \<Rightarrow>
          let info = (case out of
                        Raised msg \<Rightarrow> [(''status_code'', JInt 0), (''error'', JStr msg)]
                      | Response code text hdrs \<Rightarrow>
                          [(''status_code'', JInt code), (''payload'', json_or_text e text),
                           (''headers'', headers_dict hdrs)])
          in (Inr info, s1\<lparr>facilitator_info := info\<rparr>))"

definition init_wallet :: "env \<Rightarrow> agent \<Rightarrow> (exn + string) \<times> agent" where
  "init_wallet e s =
     (case Account e of
        None \<Rightarrow> (Inl (RuntimeError ''eth_account not installed; cannot initialize wallet from private key''), s)
      | Some lib \<Rightarrow>
          let priv = with_0x (wallet_private_key s)
          in (case from_key lib priv of
                Inl x \<Rightarrow> (Inl x, s)
              | Inr addr \<Rightarrow> (Inr addr, s\<lparr>wallet_address := Some addr\<rparr>)))"

definition request_body :: "agent \<Rightarrow> string \<Rightarrow> string \<Rightarrow> pydict option \<Rightarrow> pydict" where
  "request_body s amount currency metadata =
     [(''amount'', JFloat amount), (''currency'', JStr currency)]
     @ (case metadata of None \<Rightarrow> [] | Some m \<Rightarrow> if m \<noteq> [] then [(''metadata'', JObj m)] else [])
     @ (case wallet_address s of None \<Rightarrow> [] | Some a \<Rightarrow> if a \<noteq> [] then [(''from_address'', JStr a)] else [])
     @ (case network s of None \<Rightarrow> [] | Some n \<Rightarrow> if n \<noteq> [] then [(''network'', JStr n)] else [])"

definition post_request :: "agent \<Rightarrow> string \<Rightarrow> string \<Rightarrow> string \<Rightarrow> pydict option \<Rightarrow> int \<Rightarrow> request" where
  "post_request s path amount currency metadata timeout =
     \<lparr>req_method = POST, req_url = facilitator_url s @ ''/'' @ lstrip_slash path,
      req_headers = json_headers, req_json = Some (JObj (request_body s amount currency metadata)),
      req_timeout = timeout\<rparr>"

definition paid_api_call ::
  "env \<Rightarrow> agent \<Rightarrow> string \<Rightarrow> string \<Rightarrow> string \<Rightarrow> pydict option \<Rightarrow> int \<Rightarrow> (exn + pydict) \<times> agent" where
  "paid_api_call e s path amount currency metadata timeout =
     (let body = request_body s amount currency metadata in
      case send e s (post_request s path amount currency metadata timeout) of
        (Raised msg, s1) \<Rightarrow> (Inr [(''status_code'', JInt 0), (''error'', JStr msg)], s1)
      | (Response code text hdrs, s1) \<Rightarrow>
          let result = [(''status_code'', JInt code), (''payload'', json_or_text e text),
                        (''headers'', headers_dict hdrs)]
          in if 200 \<le> code \<and> code < 300 then (Inr result, s1)
             else
               let result1 = dict_set (dict_set result ''request_body'' (JObj body))
                               ''response_text'' (JStr text)
               in if facilitator_info s1 = [] then
                    (case discover_facilitator e s1 5 of
                       (Inl _, s2) \<Rightarrow> (Inr result1, s2)
                     | (Inr _, s2) \<Rightarrow>
                         (Inr (dict_set result1 ''facilitator_info'' (JObj (facilitator_info s2))), s2))
                  else (Inr result1, s1))"

definition memo_metadata :: "string option \<Rightarrow> pydict option" where
  "memo_metadata memo = (if truthy_str memo then Some [(''memo'', opt_str memo)] else None)"

text \<open>The dictionary returned when \<open>/verify\<close> stands in for a missing \<open>/create_payment\<close>.\<close>

definition verified_as_create :: "pydict \<Rightarrow> exn + pydict" where
  "verified_as_create verify_res =
     (case py_get (dict_get verify_res ''payload'' (JObj [])) ''id'' JNull of
        Inl x \<Rightarrow> Inl x
      | Inr i \<Rightarrow>
         (case py_get (dict_get verify_res ''payload'' (JObj [])) ''received''
                 (dict_get verify_res ''payload'' JNull) of
            Inl x \<Rightarrow> Inl x
          | Inr received \<Rightarrow>
              Inr [(''status_code'', dict_get verify_res ''status_code'' JNull),
                   (''payload'', JObj
                      [(''id'', if truthy i then i else dict_get verify_res ''payload'' JNull),
                       (''status'', JStr ''verified-as-create''),
                       (''received'', received)]),
                   (''headers'', dict_get verify_res ''headers'' JNull)]))"

definition create_payment_session ::
  "env \<Rightarrow> agent \<Rightarrow> string \<Rightarrow> string \<Rightarrow> string option \<Rightarrow> (exn + pydict) \<times> agent" where
  "create_payment_session e s amount currency memo =
     (let metadata = memo_metadata memo in
      case paid_api_call e s ''create_payment'' amount currency metadata 30 of
        (Inl x, s1) \<Rightarrow> (Inl x, s1)
      | (Inr create_res, s1) \<Rightarrow>
          let status = dict_get create_res ''status_code'' (JInt 0) in
          if eq_int status 404 then
            (case paid_api_call e s1 ''verify'' amount currency metadata 30 of
               (Inl x, s2) \<Rightarrow> (Inl x, s2)
             | (Inr verify_res, s2) \<Rightarrow>
                 (case in_2xx (dict_get verify_res ''status_code'' (JInt 0)) of
                    Inl x \<Rightarrow> (Inl x, s2)
                  | Inr True \<Rightarrow> (verified_as_create verify_res, s2)
                  | Inr False \<Rightarrow> (Inr verify_res, s2)))
          else if eq_int status 400 then
            (case paid_api_call e s1 ''verify'' amount currency metadata 30 of
               (Inl x, s2) \<Rightarrow> (Inl x, s2)
             | (Inr verify_res, s2) \<Rightarrow>
                 let create_res1 = dict_setdefault create_res ''diagnostics'' (JObj []) in
                 (case set_item2 create_res1 ''diagnostics'' ''note''
                         (JStr ''create_payment returned 400; see response_text and request_body'') of
                    Inl x \<Rightarrow> (Inl x, s2)
                  | Inr create_res2 \<Rightarrow>
                      (case discover_facilitator e s2 5 of
                         (Inl x, s3) \<Rightarrow> (Inl x, s3)
                       | (Inr info, s3) \<Rightarrow>
                           (case set_item2 create_res2 ''diagnostics'' ''facilitator_list'' (JObj info) of
                              Inl x \<Rightarrow> (Inl x, s3)
                            | Inr create_res3 \<Rightarrow> (Inr create_res3, s3)))))
          else (Inr create_res, s1))"

subsection \<open>The signed verify fallback\<close>

definition eip712_domain :: pyval where
  "eip712_domain = JObj
     [(''name'', JStr ''x402 Payment''),
      (''version'', JStr ''1''),
      (''chainId'', JInt 1),
      (''verifyingContract'', JStr zero_address)]"

definition field :: "string \<Rightarrow> string \<Rightarrow> pyval" where
  "field n t = JObj [(''name'', JStr n), (''type'', JStr t)]"

definition eip712_types :: pyval where
  "eip712_types = JObj
     [(''EIP712Domain'', JArr
         [field ''name'' ''string'', field ''version'' ''string'',
          field ''chainId'' ''uint256'', field ''verifyingContract'' ''address'']),
      (''Payment'', JArr
         [field ''from'' ''address'', field ''to'' ''address'', field ''amount'' ''string'',
          field ''currency'' ''string'', field ''memo'' ''string'', field ''network'' ''string''])]"

definition or_default :: "string option \<Rightarrow> string \<Rightarrow> string" where
  "or_default a dflt = (case a of None \<Rightarrow> dflt | Some t \<Rightarrow> if t \<noteq> [] then t else dflt)"

definition build_eip712_intent :: "env \<Rightarrow> agent \<Rightarrow> string \<Rightarrow> string \<Rightarrow> string option \<Rightarrow> pydict" where
  "build_eip712_intent e s amount currency memo =
     (let message = JObj
            [(''from'', JStr (or_default (wallet_address s) zero_address)),
             (''to'', JStr (or_default (py_or (getenv e ''PAYAI_MERCHANT_ADDRESS'') (getenv e ''ADDRESS''))
                              zero_address)),
             (''amount'', JStr amount),
             (''currency'', JStr currency),
             (''memo'', JStr (or_default memo [])),
             (''network'', JStr (or_default (network s) []))]
      in [(''types'', eip712_types), (''domain'', eip712_domain),
          (''primaryType'', JStr ''Payment''), (''message'', message)])"

definition sign_eip712 :: "env \<Rightarrow> agent \<Rightarrow> pydict \<Rightarrow> exn + string option" where
  "sign_eip712 e s structured_data =
     (case Account e of
        None \<Rightarrow> Inr None
      | Some lib \<Rightarrow>
          let priv = with_0x (wallet_private_key s)
          in (case sign_typed lib (JObj structured_data) priv of
                Inl _ \<Rightarrow> Inr None
              | Inr sig \<Rightarrow> Inr (Some sig)))"

definition signed_body :: "agent \<Rightarrow> pydict \<Rightarrow> string option \<Rightarrow> pydict" where
  "signed_body s structured signature =
     [(''eip712'', JObj structured), (''signature'', opt_str signature),
      (''from_address'', opt_str (wallet_address s)), (''network'', opt_str (network s))]"

definition signed_request :: "agent \<Rightarrow> pydict \<Rightarrow> request" where
  "signed_request s body =
     \<lparr>req_method = POST, req_url = rstrip_slash (facilitator_url s) @ ''/verify'',
      req_headers = json_headers, req_json = Some (JObj body), req_timeout = 30\<rparr>"

definition verify_with_signature ::
  "env \<Rightarrow> agent \<Rightarrow> string \<Rightarrow> string \<Rightarrow> string option \<Rightarrow> (exn + pydict) \<times> agent" where
  "verify_with_signature e s amount currency memo =
     (let structured = build_eip712_intent e s amount currency memo in
      case sign_eip712 e s structured of
        Inl x \<Rightarrow> (Inl x, s)
      | Inr signature \<Rightarrow>
          let body = signed_body s structured signature in
          (case send e s (signed_request s body) of
             (Raised msg, s1) \<Rightarrow>
               (Inr [(''status_code'', JInt 0), (''error'', JStr msg), (''request_body'', JObj body)], s1)
           | (Response code text hdrs, s1) \<Rightarrow>
               (Inr [(''status_code'', JInt code), (''payload'', json_or_text e text),
                     (''headers'', headers_dict hdrs), (''request_body'', JObj body)], s1)))"

subsection \<open>complete_payment_flow\<close>

definition error_result :: "exn \<Rightarrow> pyval" where
  "error_result x = JObj [(''status_code'', JInt 0), (''error'', JStr (str_exn x))]"

definition skip_verify :: pydict where
  "skip_verify = [(''status_code'', JInt 0), (''error'', JStr ''create failed; skipping verify'')]"

definition skip_settle :: pydict where
  "skip_settle = [(''status_code'', JInt 0), (''error'', JStr ''verify failed; skipping settle'')]"

text \<open>The three \<open>try\<close> blocks of the flow, each with its body first.\<close>

definition create_stage ::
  "env \<Rightarrow> agent \<Rightarrow> string \<Rightarrow> string \<Rightarrow> string option \<Rightarrow> pydict \<Rightarrow> pydict \<times> agent" where
  "create_stage e s amount currency memo result =
     (case create_payment_session e s amount currency memo of
        (Inl x, s1) \<Rightarrow> (dict_set result ''create'' (error_result x), s1)
      | (Inr create_res, s1) \<Rightarrow> (dict_set result ''create'' (JObj create_res), s1))"

definition verify_body ::
  "env \<Rightarrow> agent \<Rightarrow> string \<Rightarrow> string \<Rightarrow> string option \<Rightarrow> int \<Rightarrow> pydict \<Rightarrow> (exn + pydict) \<times> agent" where
  "verify_body e s amount currency memo timeout result =
     (case py_get (dict_get result ''create'' (JObj [])) ''status_code'' (JInt 0) of
        Inl x \<Rightarrow> (Inl x, s)
      | Inr status \<Rightarrow>
         (case in_2xx status of
            Inl x \<Rightarrow> (Inl x, s)
          | Inr True \<Rightarrow> paid_api_call e s ''verify'' amount currency (memo_metadata memo) timeout
          | Inr False \<Rightarrow>
              if eq_int status 400 \<or> eq_int status 404 then
                (case paid_api_call e s ''verify'' amount currency (memo_metadata memo) timeout of
                   (Inl x, s1) \<Rightarrow> (Inl x, s1)
                 | (Inr verify_res, s1) \<Rightarrow>
                     (case in_2xx (dict_get verify_res ''status_code'' (JInt 0)) of
                        Inl x \<Rightarrow> (Inl x, s1)
                      | Inr False \<Rightarrow>
                          (case verify_with_signature e s1 amount currency memo of
                             (Inl x, s2) \<Rightarrow> (Inl x, s2)
                           | (Inr sig_res, s2) \<Rightarrow>
                               (case in_2xx (dict_get sig_res ''status_code'' (JInt 0)) of
                                  Inl x \<Rightarrow> (Inl x, s2)
                                | Inr True \<Rightarrow> (Inr sig_res, s2)
                                | Inr False \<Rightarrow>
                                    (Inr (try_attach verify_res
                                            [(''create_response'', dict_get result ''create'' JNull),
                                             (''signature_attempt'', JObj sig_res)]), s2)))
                      | Inr True \<Rightarrow>
                          (Inr (try_attach verify_res
                                  [(''create_response'', dict_get result ''create'' JNull)]), s1)))
              else (Inr skip_verify, s)))"

definition verify_stage ::
  "env \<Rightarrow> agent \<Rightarrow> string \<Rightarrow> string \<Rightarrow> string option \<Rightarrow> int \<Rightarrow> pydict \<Rightarrow> pydict \<times> agent" where
  "verify_stage e s amount currency memo timeout result =
     (case verify_body e s amount currency memo timeout result of
        (Inl x, s1) \<Rightarrow> (dict_set result ''verify'' (error_result x), s1)
      | (Inr verify_res, s1) \<Rightarrow> (dict_set result ''verify'' (JObj verify_res), s1))"

definition settle_body ::
  "env \<Rightarrow> agent \<Rightarrow> string \<Rightarrow> string \<Rightarrow> string option \<Rightarrow> int \<Rightarrow> pydict \<Rightarrow> (exn + pydict) \<times> agent" where
  "settle_body e s amount currency memo timeout result =
     (case py_get (dict_get result ''verify'' (JObj [])) ''status_code'' (JInt 0) of
        Inl x \<Rightarrow> (Inl x, s)
      | Inr vstatus \<Rightarrow>
         (case in_2xx vstatus of
            Inl x \<Rightarrow> (Inl x, s)
          | Inr True \<Rightarrow> paid_api_call e s ''settle'' amount currency (memo_metadata memo) timeout
          | Inr False \<Rightarrow>
              if eq_int vstatus 400 \<or> eq_int vstatus 404 then
                (case paid_api_call e s ''settle'' amount currency (memo_metadata memo) timeout of
                   (Inl x, s1) \<Rightarrow> (Inl x, s1)
                 | (Inr settle_res, s1) \<Rightarrow>
                     (Inr (try_attach settle_res
                             [(''verify_response'', dict_get result ''verify'' JNull)]), s1))
              else (Inr skip_settle, s)))"

definition settle_stage ::
  "env \<Rightarrow> agent \<Rightarrow> string \<Rightarrow> string \<Rightarrow> string option \<Rightarrow> int \<Rightarrow> pydict \<Rightarrow> pydict \<times> agent" where
  "settle_stage e s amount currency memo timeout result =
     (case settle_body e s amount currency memo timeout result of
        (Inl x, s1) \<Rightarrow> (dict_set result ''settle'' (error_result x), s1)
      | (Inr settle_res, s1) \<Rightarrow> (dict_set result ''settle'' (JObj settle_res), s1))"

definition complete_payment_flow ::
  "env \<Rightarrow> agent \<Rightarrow> string \<Rightarrow> string \<Rightarrow> string option \<Rightarrow> int \<Rightarrow> (exn + pydict) \<times> agent" where
  "complete_payment_flow e s amount currency memo timeout =
     (case create_stage e s amount currency memo [] of
        (result1, s1) \<Rightarrow>
          (case verify_stage e s1 amount currency memo timeout result1 of
             (result2, s2) \<Rightarrow>
               (case settle_stage e s2 amount currency memo timeout result2 of
                  (result3, s3) \<Rightarrow> (Inr result3, s3))))"

subsection \<open>Construction and the discovery fallback\<close>

definition mock_url :: "env \<Rightarrow> string" where
  "mock_url e = getenv_default e ''MOCK_FACILITATOR_URL'' ''http://127.0.0.1:8000''"

text \<open>\<open>self.facilitator_url = mock; try: self.discover_facilitator() except Exception: pass\<close>\<close>

definition fallback_to_mock :: "env \<Rightarrow> agent \<Rightarrow> agent" where
  "fallback_to_mock e s =
     (case discover_facilitator e (s\<lparr>facilitator_url := mock_url e\<rparr>) 5 of
        (Inl _, s1) \<Rightarrow> s1
      | (Inr _, s1) \<Rightarrow> s1)"

definition init_probe :: "env \<Rightarrow> agent \<Rightarrow> agent" where
  "init_probe e s =
     (case discover_facilitator e s 3 of
        (Inl _, s1) \<Rightarrow> fallback_to_mock e s1
      | (Inr info, s1) \<Rightarrow>
          if eq_int (dict_get info ''status_code'' (JInt 0)) 0 then fallback_to_mock e s1
          else (case ge_500 (dict_get info ''status_code'' JNull) of
                  Inl _ \<Rightarrow> fallback_to_mock e s1
                | Inr True \<Rightarrow> fallback_to_mock e s1
                | Inr False \<Rightarrow> s1))"

text \<open>
  \<open>__init__\<close>, after the base class constructor (which lives outside this module): the
  arguments are \<open>facilitator_url\<close>, \<open>wallet_private_key\<close> and \<open>network\<close>.
\<close>

definition init_agent :: "env \<Rightarrow> string \<Rightarrow> string option \<Rightarrow> string option \<Rightarrow> exn + agent" where
  "init_agent e url_arg key_arg network_arg =
     (let s0 = \<lparr>facilitator_url = rstrip_slash (getenv_default e ''FACILITATOR_URL'' url_arg),
                wallet_private_key = py_or (py_or key_arg (getenv e ''X402_PRIVATE_KEY''))
                                       (getenv e ''PAYAI_WALLET_PRIVATE_KEY''),
                network = py_or network_arg (getenv e ''X402_NETWORK''),
                wallet_address = None,
                facilitator_info = [],
                http_log = []\<rparr>;
          s1 = (if truthy_str (wallet_private_key s0)
                then (case init_wallet e s0 of (Inl _, s') \<Rightarrow> s' | (Inr _, s') \<Rightarrow> s')
                else s0)
      in Inr (init_probe e s1))"

text \<open>A session: any sequence of calls of the public methods on one agent.\<close>

datatype call =
    Discover int
  | PaidApiCall string string string "pydict option" int
  | CreatePaymentSession string string "string option"
  | CompletePaymentFlow string string "string option" int
  | VerifyWithSignature string string "string option"

fun run_call :: "env \<Rightarrow> agent \<Rightarrow> call \<Rightarrow> agent" where
  "run_call e s (Discover t) = snd (discover_facilitator e s t)"
| "run_call e s (PaidApiCall p a c m t) = snd (paid_api_call e s p a c m t)"
| "run_call e s (CreatePaymentSession a c m) = snd (create_payment_session e s a c m)"
| "run_call e s (CompletePaymentFlow a c m t) = snd (complete_payment_flow e s a c m t)"
| "run_call e s (VerifyWithSignature a c m) = snd (verify_with_signature e s a c m)"

fun run_calls :: "env \<Rightarrow> agent \<Rightarrow> call list \<Rightarrow> agent" where
  "run_calls e s [] = s"
| "run_calls e s (c # cs) = run_calls e (run_call e s c) cs"

section \<open>x402_payment_tool\<close>

definition derive_address_from_private_key :: "env \<Rightarrow> string option \<Rightarrow> string option" where
  "derive_address_from_private_key e priv =
     (if \<not> truthy_str priv then None
      else case Account e of
             None \<Rightarrow> None
           | Some lib \<Rightarrow> (case from_key lib priv of Inl _ \<Rightarrow> None | Inr a \<Rightarrow> Some a))"

definition tool_payload ::
  "env \<Rightarrow> string \<Rightarrow> string \<Rightarrow> string option \<Rightarrow> string option \<Rightarrow> string option \<Rightarrow> pydict" where
  "tool_payload e amount currency memo private_key network_arg =
     [(''amount'', JFloat amount), (''currency'', JStr currency)]
     @ (if truthy_str memo then [(''metadata'', JObj [(''memo'', opt_str memo)])] else [])
     @ (if truthy_str network_arg then [(''network'', opt_str network_arg)] else [])
     @ (case derive_address_from_private_key e private_key of
          None \<Rightarrow> []
        | Some a \<Rightarrow> if a \<noteq> [] then [(''from_address'', JStr a)] else [])"

definition tool_request :: "http_method \<Rightarrow> string \<Rightarrow> string \<Rightarrow> pydict \<Rightarrow> request" where
  "tool_request m base path payload =
     (if m = GET
      then \<lparr>req_method = GET, req_url = rstrip_slash base @ ''/'' @ path,
            req_headers = [], req_json = None, req_timeout = 3\<rparr>
      else \<lparr>req_method = POST, req_url = rstrip_slash base @ ''/'' @ path,
            req_headers = json_headers, req_json = Some (JObj payload), req_timeout = 30\<rparr>)"

definition tool_result :: "env \<Rightarrow> http_outcome \<Rightarrow> pydict \<Rightarrow> pydict" where
  "tool_result e out payload =
     (case out of
        Raised msg \<Rightarrow>
          [(''status_code'', JInt 0), (''error'', JStr msg), (''request_body'', JObj payload)]
      | Response code text hdrs \<Rightarrow>
          [(''status_code'', JInt code), (''body'', json_or_text e text), (''headers'', headers_dict hdrs)])"

definition tool_base_url :: "env \<Rightarrow> string \<Rightarrow> http_outcome \<Rightarrow> string" where
  "tool_base_url e url0 probe =
     (case probe of
        Raised _ \<Rightarrow> mock_url e
      | Response code _ _ \<Rightarrow> if code = 0 \<or> 500 \<le> code then mock_url e else url0)"

definition x402_payment_tool ::
  "env \<Rightarrow> string \<Rightarrow> string \<Rightarrow> string option \<Rightarrow> string option \<Rightarrow> string option \<Rightarrow> string option
     \<Rightarrow> (exn + pydict) \<times> request list" where
  "x402_payment_tool e amount currency memo url_arg key_arg network_arg =
     (let url0 = or_default (py_or (py_or url_arg (getenv e ''FACILITATOR_URL''))
                               (getenv e ''PAYAI_FACILITATOR_URL''))
                   ''https://facilitator.payai.network'';
          private_key = py_or (py_or key_arg (getenv e ''X402_PRIVATE_KEY''))
                          (getenv e ''PAYAI_WALLET_PRIVATE_KEY'');
          network1 = py_or network_arg (getenv e ''X402_NETWORK'');
          payload = tool_payload e amount currency memo private_key network1;
          list_rq = tool_request GET url0 ''list'' payload;
          url1 = tool_base_url e url0 (http e [] list_rq);
          create_rq = tool_request POST url1 ''create_payment'' payload;
          verify_rq = tool_request POST url1 ''verify'' payload
      in case http e [list_rq] create_rq of
           Raised msg \<Rightarrow> (Inr (tool_result e (Raised msg) payload), [list_rq, create_rq])
         | Response code text hdrs \<Rightarrow>
             if code = 404
             then (Inr (tool_result e (http e [list_rq, create_rq] verify_rq) payload),
                   [list_rq, create_rq, verify_rq])
             else (Inr (tool_result e (Response code text hdrs) payload), [list_rq, create_rq]))"

section \<open>decode_x_payment_response\<close>

definition decode_x_payment_response :: "env \<Rightarrow> string \<Rightarrow> pyval" where
  "decode_x_payment_response e header_value =
     (case loads e header_value of
        Some j \<Rightarrow> j
      | None \<Rightarrow> JObj [(''transaction'', JStr header_value)])"

section \<open>Vocabulary of the properties\<close>

fun outcome_status :: "http_outcome \<Rightarrow> int" where
  "outcome_status (Raised _) = 0"
| "outcome_status (Response code _ _) = code"

text \<open>A POST whose URL ends in \<open>/settle\<close>.\<close>

definition is_settle_post :: "request \<Rightarrow> bool" where
  "is_settle_post r = (req_method r = POST \<and> suffix ''/settle'' (req_url r))"

text \<open>A POST to \<open>/verify\<close> whose body carries a structured intent under \<open>eip712\<close>.\<close>

definition is_signed_verify :: "request \<Rightarrow> bool" where
  "is_signed_verify r =
     (req_method r = POST \<and> suffix ''/verify'' (req_url r)
      \<and> (case req_json r of Some (JObj b) \<Rightarrow> map_of b ''eip712'' \<noteq> None | _ \<Rightarrow> False))"

text \<open>A request below the base URL \<open>u\<close>, as the agent builds its URLs.\<close>

definition targets :: "string \<Rightarrow> request \<Rightarrow> bool" where
  "targets u r = (prefix (u @ ''/'') (req_url r) \<or> prefix (rstrip_slash u @ ''/'') (req_url r))"

definition plain :: "string \<Rightarrow> request \<Rightarrow> bool" where
  "plain u r = (targets u r \<and> \<not> is_settle_post r \<and> \<not> is_signed_verify r)"

definition same_config :: "agent \<Rightarrow> agent \<Rightarrow> bool" where
  "same_config s s1 =
     (facilitator_url s1 = facilitator_url s \<and> wallet_address s1 = wallet_address s
      \<and> network s1 = network s \<and> wallet_private_key s1 = wallet_private_key s)"

text \<open>The configuration is kept and the client log grows by requests that satisfy \<open>P\<close>.\<close>

definition step :: "(request \<Rightarrow> bool) \<Rightarrow> agent \<Rightarrow> agent \<Rightarrow> bool" where
  "step P s s1 = (same_config s s1 \<and> (\<exists>new. http_log s1 = http_log s @ new \<and> list_all P new))"

definition probe_unusable :: "http_outcome \<Rightarrow> bool" where
  "probe_unusable out = (case out of Raised _ \<Rightarrow> True | Response code _ _ \<Rightarrow> code = 0 \<or> 500 \<le> code)"

text \<open>The request that \<open>verify_with_signature\<close> sends from state \<open>s\<close>.\<close>

definition signature_request :: "env \<Rightarrow> agent \<Rightarrow> string \<Rightarrow> string \<Rightarrow> string option \<Rightarrow> request" where
  "signature_request e s amount currency memo =
     (let structured = build_eip712_intent e s amount currency memo
      in signed_request s (signed_body s structured
           (case sign_eip712 e s structured of Inl _ \<Rightarrow> None | Inr sg \<Rightarrow> sg)))"

definition signature_null :: "request \<Rightarrow> bool" where
  "signature_null r =
     (case req_json r of Some (JObj b) \<Rightarrow> map_of b ''signature'' = Some JNull | _ \<Rightarrow> False)"

definition primary_url :: "env \<Rightarrow> string \<Rightarrow> string" where
  "primary_url e url_arg = rstrip_slash (getenv_default e ''FACILITATOR_URL'' url_arg)"

definition probe_of :: "string \<Rightarrow> int \<Rightarrow> request" where
  "probe_of u timeout =
     \<lparr>req_method = GET, req_url = rstrip_slash u @ ''/list'',
      req_headers = [], req_json = None, req_timeout = timeout\<rparr>"

text \<open>Projections of what a method returns.\<close>

definition flow_result :: "(exn + pydict) \<times> 'a \<Rightarrow> pydict" where
  "flow_result x = (case fst x of Inl _ \<Rightarrow> [] | Inr r \<Rightarrow> r)"

definition stage :: "pydict \<Rightarrow> string \<Rightarrow> pydict" where
  "stage r k = (case map_of r k of Some (JObj d) \<Rightarrow> d | _ \<Rightarrow> [])"

subsection \<open>Base64, for comparison with \<open>decode_x_payment_response\<close>\<close>

definition b64_alphabet :: string where
  "b64_alphabet = ''ABCDEFGHIJKLMNOPQRSTUVWXYZabcdefghijklmnopqrstuvwxyz0123456789+/''"

fun index_of :: "char \<Rightarrow> string \<Rightarrow> nat option" where
  "index_of c [] = None"
| "index_of c (x # xs) = (if c = x then Some 0 else map_option Suc (index_of c xs))"

definition b64_value :: "char \<Rightarrow> nat option" where
  "b64_value c = index_of c b64_alphabet"

fun b64_quads :: "string \<Rightarrow> nat list option" where
  "b64_quads [] = Some []"
| "b64_quads (a # b # c # d # rest) =
     (case (b64_value a, b64_value b) of
        (Some x, Some y) \<Rightarrow>
          if c = CHR ''='' \<and> d = CHR ''='' \<and> rest = [] then Some [x * 4 + y div 16]
          else (case b64_value c of
                  None \<Rightarrow> None
                | Some z \<Rightarrow>
                    if d = CHR ''='' \<and> rest = []
                    then Some [x * 4 + y div 16, (y mod 16) * 16 + z div 4]
                    else (case b64_value d of
                            None \<Rightarrow> None
                          | Some w \<Rightarrow>
                              (case b64_quads rest of
                                 None \<Rightarrow> None
                               | Some bs \<Rightarrow>
                                   Some ([x * 4 + y div 16, (y mod 16) * 16 + z div 4,
                                          (z mod 4) * 64 + w] @ bs))))
      | _ \<Rightarrow> None)"
| "b64_quads _ = None"

definition b64decode :: "string \<Rightarrow> string option" where
  "b64decode t = map_option (map char_of) (b64_quads t)"

text \<open>
  A decoder that does what the words "base64/JSON decode with raw-string fallback" say:
  base64 first, then JSON, and the raw value in a mapping when either step fails.
\<close>

definition decode_base64_json :: "env \<Rightarrow> string \<Rightarrow> pyval" where
  "decode_base64_json e header_value =
     (case b64decode header_value of
        None \<Rightarrow> JObj [(''transaction'', JStr header_value)]
      | Some t \<Rightarrow>
          (case loads e t of
             None \<Rightarrow> JObj [(''transaction'', JStr header_value)]
           | Some j \<Rightarrow> j))"

section \<open>Example worlds\<close>

text \<open>
  \<open>ex_loads\<close> agrees with \<open>json.loads\<close> on every text the examples feed it: the four JSON
  texts below parse, and the other response bodies used (plain words) are not JSON.
\<close>

definition ex_loads :: "string \<Rightarrow> pyval option" where
  "ex_loads t =
     (if t = ''{}'' then Some (JObj [])
      else if t = ''[]'' then Some (JArr [])
      else if t = ''[1]'' then Some (JArr [JInt 1])
      else if t = ''true'' then Some (JBool True)
      else None)"

text \<open>A scripted answer: status 0 stands for a transport failure with the given message.\<close>

definition reply :: "int \<times> string \<Rightarrow> http_outcome" where
  "reply r = (if fst r = 0 then Raised (snd r) else Response (fst r) (snd r) [])"

text \<open>
  A facilitator at \<open>http://f\<close> scripted by endpoint: \<open>/list\<close>, \<open>/create_payment\<close>, plain
  \<open>/verify\<close>, signed \<open>/verify\<close>, and everything else (\<open>/settle\<close>).
\<close>

definition scripted ::
  "int \<times> string \<Rightarrow> int \<times> string \<Rightarrow> int \<times> string \<Rightarrow> int \<times> string \<Rightarrow> int \<times> string
     \<Rightarrow> request list \<Rightarrow> request \<Rightarrow> http_outcome" where
  "scripted ls cr vr sg st log r =
     (if req_method r = GET then reply ls
      else if req_url r = ''http://f/create_payment'' then reply cr
      else if req_url r = ''http://f/verify'' then (if is_signed_verify r then reply sg else reply vr)
      else reply st)"

definition ex_lib :: "bool \<Rightarrow> account_lib" where
  "ex_lib works =
     \<lparr>from_key = (\<lambda>k. Inr ''0xA11CE''),
      sign_typed = (\<lambda>d k. if works then Inr ''0x5166'' else Inl (LibraryError ''signing failed''))\<rparr>"

definition ex_env :: "(request list \<Rightarrow> request \<Rightarrow> http_outcome) \<Rightarrow> account_lib option \<Rightarrow> env" where
  "ex_env h lib = \<lparr>http = h, loads = ex_loads, getenv = (\<lambda>_. None), Account = lib\<rparr>"

definition ex_agent :: agent where
  "ex_agent =
     \<lparr>facilitator_url = ''http://f'', wallet_private_key = Some ''ab'', network = None,
      wallet_address = Some ''0xA11CE'', facilitator_info = [(''status_code'', JInt 200)],
      http_log = []\<rparr>"

text \<open>The scenarios used below.\<close>

definition world_create_404_verify_true :: env where
  "world_create_404_verify_true = ex_env (scripted (200, ''{}'') (404, ''Not Found'') (200, ''true'') (0, ''unused'') (200, ''{}'')) None"

definition world_verify_500 :: env where
  "world_verify_500 = ex_env (scripted (200, ''{}'') (200, ''{}'') (500, ''boom'') (0, ''unused'') (200, ''{}'')) None"

definition world_verify_404 :: env where
  "world_verify_404 = ex_env (scripted (200, ''{}'') (200, ''{}'') (404, ''gone'') (0, ''unused'') (200, ''{}'')) None"

definition world_create_400_verify_400 :: env where
  "world_create_400_verify_400 = ex_env (scripted (200, ''{}'') (400, ''no'') (400, ''bad'') (401, ''denied'') (200, ''{}''))
                       (Some (ex_lib True))"

definition world_created_verify_400 :: env where
  "world_created_verify_400 = ex_env (scripted (200, ''{}'') (200, ''{}'') (400, ''bad'') (200, ''{}'') (200, ''{}''))
              (Some (ex_lib True))"

definition world_mixed :: env where
  "world_mixed = ex_env (scripted (200, ''{}'') (503, ''busy'') (0, ''timed out'') (404, ''gone'') (200, ''{}''))
              None"

definition world_signer_fails :: env where
  "world_signer_fails = ex_env (scripted (200, ''{}'') (400, ''no'') (400, ''bad'') (401, ''signature required'') (200, ''{}''))
              (Some (ex_lib False))"

definition world_offline :: env where
  "world_offline = ex_env (\<lambda>log r. Raised ''unused'') None"

definition world_down :: env where
  "world_down = \<lparr>http = (\<lambda>log r. Raised ''connection refused''), loads = ex_loads,
                getenv = (\<lambda>_. None), Account = None\<rparr>"

section \<open>Properties\<close>

subsection \<open>Dictionaries\<close>

lemma dict_set_fresh: "map_of d k = None \<Longrightarrow> dict_set d k v = d @ [(k, v)]"
  by (induction d) (auto split: if_splits)

lemma dict_set_last: "map_of d k = None \<Longrightarrow> dict_set (d @ [(k, w)]) k v = d @ [(k, v)]"
  by (induction d) (auto split: if_splits)

lemma map_of_snoc_fresh: "map_of d k = None \<Longrightarrow> map_of (d @ [(k, v)]) k = Some v"
  by (induction d) (auto split: if_splits)

lemma set_item2_last:
  "map_of d k1 = None \<Longrightarrow>
   set_item2 (d @ [(k1, JObj inner)]) k1 k2 v = Inr (d @ [(k1, JObj (dict_set inner k2 v))])"
  unfolding set_item2_def by (simp add: map_of_snoc_fresh dict_set_last del: map_of_append)

lemma try_attach_fresh1:
  "map_of d ''diagnostics'' = None \<Longrightarrow>
   try_attach d [(k, v)] = d @ [(''diagnostics'', JObj [(k, v)])]"
  by (simp add: try_attach_def dict_setdefault_def set_item2_last del: map_of_append)

lemma try_attach_fresh2:
  "map_of d ''diagnostics'' = None \<Longrightarrow> k1 \<noteq> k2 \<Longrightarrow>
   try_attach d [(k1, v1), (k2, v2)] = d @ [(''diagnostics'', JObj [(k1, v1), (k2, v2)])]"
  by (simp add: try_attach_def dict_setdefault_def set_item2_last del: map_of_append)

subsection \<open>URLs\<close>

lemma suffix_same_length: "length a = length b \<Longrightarrow> suffix a (x @ b) \<longleftrightarrow> a = b"
  by (auto simp: suffix_def)

lemma suffix_shorter: "length a \<le> length b \<Longrightarrow> suffix a (x @ b) \<longleftrightarrow> suffix a b"
  using suffix_append suffix_length_suffix by blast

subsection \<open>Requests\<close>

lemma list_request_plain: "plain (facilitator_url s) (list_request s t)"
  by (simp add: plain_def targets_def list_request_def is_settle_post_def is_signed_verify_def)

lemma post_request_targets: "targets (facilitator_url s) (post_request s p a c m t)"
  by (simp add: targets_def post_request_def)

lemma request_body_no_eip712: "map_of (request_body s a c m) ''eip712'' = None"
  by (simp add: request_body_def split: option.splits)

lemma post_request_not_signed: "\<not> is_signed_verify (post_request s p a c m t)"
  by (simp add: is_signed_verify_def post_request_def request_body_no_eip712)

lemma post_create_not_settle: "\<not> is_settle_post (post_request s ''create_payment'' a c m t)"
  by (simp add: is_settle_post_def post_request_def lstrip_slash_def suffix_shorter suffix_to_prefix)

lemma post_verify_not_settle: "\<not> is_settle_post (post_request s ''verify'' a c m t)"
  by (simp add: is_settle_post_def post_request_def lstrip_slash_def suffix_same_length)

lemma post_settle_is_settle: "is_settle_post (post_request s ''settle'' a c m t)"
  by (simp add: is_settle_post_def post_request_def lstrip_slash_def suffix_same_length)

lemma post_create_plain: "plain (facilitator_url s) (post_request s ''create_payment'' a c m t)"
  by (simp add: plain_def post_request_targets post_request_not_signed post_create_not_settle)

lemma post_verify_plain: "plain (facilitator_url s) (post_request s ''verify'' a c m t)"
  by (simp add: plain_def post_request_targets post_request_not_signed post_verify_not_settle)

lemma signed_request_targets: "targets (facilitator_url s) (signed_request s body)"
  by (simp add: targets_def signed_request_def)

lemma signed_request_not_settle: "\<not> is_settle_post (signed_request s body)"
  by (simp add: is_settle_post_def signed_request_def suffix_same_length)

lemma signed_request_is_signed: "is_signed_verify (signed_request s (signed_body s st sg))"
  by (simp add: is_signed_verify_def signed_request_def signed_body_def suffix_same_length)

subsection \<open>Configuration\<close>

lemma same_config_refl: "same_config s s"
  by (simp add: same_config_def)

lemma same_config_trans: "same_config s s1 \<Longrightarrow> same_config s1 s2 \<Longrightarrow> same_config s s2"
  by (simp add: same_config_def)

lemma same_config_requests:
  assumes "same_config s s1"
  shows "post_request s1 p a c m t = post_request s p a c m t"
    and "list_request s1 t = list_request s t"
    and "signed_request s1 b = signed_request s b"
    and "signed_body s1 st sg = signed_body s st sg"
    and "build_eip712_intent e s1 a c mm = build_eip712_intent e s a c mm"
    and "sign_eip712 e s1 st = sign_eip712 e s st"
  using assms
  by (simp_all add: same_config_def post_request_def list_request_def signed_request_def
        signed_body_def build_eip712_intent_def sign_eip712_def request_body_def
        split: option.splits)

lemma step_refl: "step P s s"
  by (simp add: step_def same_config_refl)

lemma step_trans:
  assumes "step P s s1" "step P s1 s2"
  shows "step P s s2"
proof -
  from assms obtain n1 n2 where
    "http_log s1 = http_log s @ n1" "list_all P n1"
    "http_log s2 = http_log s1 @ n2" "list_all P n2"
    by (auto simp: step_def)
  then have "http_log s2 = http_log s @ (n1 @ n2)" "list_all P (n1 @ n2)" by simp_all
  moreover have "same_config s s2"
    using assms by (auto simp: step_def intro: same_config_trans)
  ultimately show ?thesis unfolding step_def by blast
qed

lemma step_mono:
  assumes "step P s s1" "\<And>r. P r \<Longrightarrow> Q r"
  shows "step Q s s1"
  using assms by (auto simp: step_def list_all_iff)

lemma step_url: "step P s s1 \<Longrightarrow> facilitator_url s1 = facilitator_url s"
  by (simp add: step_def same_config_def)

subsection \<open>discover_facilitator\<close>

lemma discover_facilitator_result:
  "\<exists>info s1. discover_facilitator e s t = (Inr info, s1)
     \<and> map_of info ''status_code'' = Some (JInt (outcome_status (http e (http_log s) (list_request s t))))
     \<and> info \<noteq> []
     \<and> facilitator_info s1 = info
     \<and> same_config s s1
     \<and> http_log s1 = http_log s @ [list_request s t]"
  by (cases "http e (http_log s) (list_request s t)")
     (simp_all add: discover_facilitator_def send_def same_config_def Let_def)

lemma discover_facilitator_step:
  "step (plain (facilitator_url s)) s (snd (discover_facilitator e s t))"
  using discover_facilitator_result [of e s t]
  by (auto simp: step_def list_request_plain)

subsection \<open>paid_api_call\<close>

lemma paid_api_call_result:
  "\<exists>d s1 probes. paid_api_call e s p a c m t = (Inr d, s1)
     \<and> map_of d ''status_code''
         = Some (JInt (outcome_status (http e (http_log s) (post_request s p a c m t))))
     \<and> map_of d ''diagnostics'' = None
     \<and> same_config s s1
     \<and> http_log s1 = http_log s @ post_request s p a c m t # probes
     \<and> list_all (\<lambda>r. r = list_request s 5) probes"
proof (cases "http e (http_log s) (post_request s p a c m t)")
  case (Raised msg)
  then show ?thesis
    by (simp add: paid_api_call_def send_def same_config_def Let_def)
next
  case (Response code tx hdrs)
  show ?thesis
  proof (cases "200 \<le> code \<and> code < 300")
    case True
    with Response show ?thesis
      by (simp add: paid_api_call_def send_def same_config_def Let_def)
  next
    case False
    note nok = this
    show ?thesis
    proof (cases "facilitator_info s = []")
      case False
      with nok Response show ?thesis
        by (simp add: paid_api_call_def send_def same_config_def Let_def)
    next
      case True
      let ?s1 = "s\<lparr>http_log := http_log s @ [post_request s p a c m t]\<rparr>"
      obtain info s2 where d: "discover_facilitator e ?s1 5 = (Inr info, s2)"
        "same_config ?s1 s2" "http_log s2 = http_log ?s1 @ [list_request ?s1 5]"
        using discover_facilitator_result [of e ?s1 5] by blast
      have lr: "list_request ?s1 5 = list_request s 5" by (simp add: list_request_def)
      from nok Response True d lr show ?thesis
        by (simp add: paid_api_call_def send_def same_config_def Let_def)
    qed
  qed
qed


lemma paid_api_call_step:
  assumes "p = ''create_payment'' \<or> p = ''verify''"
  shows "step (plain (facilitator_url s)) s (snd (paid_api_call e s p a c m t))"
proof -
  obtain d s1 probes where r: "paid_api_call e s p a c m t = (Inr d, s1)" "same_config s s1"
    "http_log s1 = http_log s @ post_request s p a c m t # probes"
    "list_all (\<lambda>r. r = list_request s 5) probes"
    using paid_api_call_result [of e s p a c m t] by blast
  have "plain (facilitator_url s) (post_request s p a c m t)"
    using assms post_create_plain post_verify_plain by blast
  moreover have "list_all (plain (facilitator_url s)) probes"
    using r(4) by (auto simp: list_all_iff list_request_plain)
  ultimately show ?thesis using r by (auto simp: step_def)
qed

lemma paid_api_call_targets:
  "step (targets (facilitator_url s)) s (snd (paid_api_call e s p a c m t))"
proof -
  obtain d s1 probes where r: "paid_api_call e s p a c m t = (Inr d, s1)" "same_config s s1"
    "http_log s1 = http_log s @ post_request s p a c m t # probes"
    "list_all (\<lambda>r. r = list_request s 5) probes"
    using paid_api_call_result [of e s p a c m t] by blast
  have "list_all (targets (facilitator_url s)) probes"
    using r(4) list_request_plain [of s 5] by (auto simp: list_all_iff plain_def)
  then show ?thesis using r by (auto simp: step_def post_request_targets)
qed

subsection \<open>verify_with_signature\<close>

lemma sign_eip712_total: "\<exists>sg. sign_eip712 e s st = Inr sg"
  by (simp add: sign_eip712_def Let_def split: option.splits sum.splits)

lemma verify_with_signature_result:
  "\<exists>d s1 sg. verify_with_signature e s a c m = (Inr d, s1)
     \<and> sign_eip712 e s (build_eip712_intent e s a c m) = Inr sg
     \<and> map_of d ''status_code''
         = Some (JInt (outcome_status (http e (http_log s)
              (signed_request s (signed_body s (build_eip712_intent e s a c m) sg)))))
     \<and> map_of d ''diagnostics'' = None
     \<and> same_config s s1
     \<and> http_log s1 = http_log s
           @ [signed_request s (signed_body s (build_eip712_intent e s a c m) sg)]"
proof -
  obtain sg where sg: "sign_eip712 e s (build_eip712_intent e s a c m) = Inr sg"
    using sign_eip712_total by blast
  show ?thesis
    by (cases "http e (http_log s) (signed_request s (signed_body s (build_eip712_intent e s a c m) sg))")
       (simp_all add: verify_with_signature_def sg send_def same_config_def Let_def)
qed

lemma signature_request_eq:
  "sign_eip712 e s (build_eip712_intent e s a c m) = Inr sg \<Longrightarrow>
   signature_request e s a c m = signed_request s (signed_body s (build_eip712_intent e s a c m) sg)"
  by (simp add: signature_request_def)

lemma signature_request_same_config:
  "same_config s s1 \<Longrightarrow> signature_request e s1 a c m = signature_request e s a c m"
  by (simp add: signature_request_def same_config_requests)

lemma verify_with_signature_log:
  "http_log (snd (verify_with_signature e s a c m)) = http_log s @ [signature_request e s a c m]"
  using verify_with_signature_result [of e s a c m] by (auto simp: signature_request_eq)

subsection \<open>create_payment_session\<close>

lemma in_2xx_int: "in_2xx (JInt n) = Inr (200 \<le> n \<and> n < 300)"
  by (simp add: in_2xx_def)

lemma eq_int_int: "eq_int (JInt n) k \<longleftrightarrow> n = k"
  by (simp add: eq_int_def)

lemma dict_get_Some: "map_of d k = Some v \<Longrightarrow> dict_get d k dflt = v"
  by (simp add: dict_get_def)

lemma verified_as_create_status:
  "verified_as_create v = Inr d \<Longrightarrow> map_of v ''status_code'' = Some x \<Longrightarrow>
   map_of d ''status_code'' = Some x"
  by (auto simp: verified_as_create_def dict_get_Some split: sum.splits)

lemma create_payment_session_result:
  "\<exists>r s1. create_payment_session e s a c m = (r, s1)
     \<and> step (plain (facilitator_url s)) s s1
     \<and> (case r of Inl _ \<Rightarrow> True | Inr d \<Rightarrow> \<exists>n. map_of d ''status_code'' = Some (JInt n))"
proof -
  let ?u = "facilitator_url s"
  let ?md = "memo_metadata m"
  obtain cr s1 where c1: "paid_api_call e s ''create_payment'' a c ?md 30 = (Inr cr, s1)"
    and cs: "map_of cr ''status_code'' = Some (JInt (outcome_status (http e (http_log s)
               (post_request s ''create_payment'' a c ?md 30))))"
    and cd: "map_of cr ''diagnostics'' = None"
    using paid_api_call_result [of e s "''create_payment''" a c ?md 30] by blast
  have st1: "step (plain ?u) s s1"
    using paid_api_call_step [of "''create_payment''" s e a c ?md 30] c1 by simp
  then have u1: "facilitator_url s1 = ?u" by (rule step_url)
  obtain vr s2 where v1: "paid_api_call e s1 ''verify'' a c ?md 30 = (Inr vr, s2)"
    and vs: "\<exists>n. map_of vr ''status_code'' = Some (JInt n)"
    using paid_api_call_result [of e s1 "''verify''" a c ?md 30] by blast
  have "step (plain ?u) s1 s2"
    using paid_api_call_step [of "''verify''" s1 e a c ?md 30] v1 u1 by simp
  with st1 have st2: "step (plain ?u) s s2" by (rule step_trans)
  then have u2: "facilitator_url s2 = ?u" by (rule step_url)
  obtain info s3 where d3: "discover_facilitator e s2 5 = (Inr info, s3)"
    using discover_facilitator_result [of e s2 5] by blast
  have "step (plain ?u) s2 s3"
    using discover_facilitator_step [of s2 e 5] d3 u2 by simp
  with st2 have st3: "step (plain ?u) s s3" by (rule step_trans)
  let ?n = "outcome_status (http e (http_log s) (post_request s ''create_payment'' a c ?md 30))"
  from vs obtain k where k: "map_of vr ''status_code'' = Some (JInt k)" by blast
  consider (n404) "?n = 404" | (n400) "?n = 400" | (other) "?n \<noteq> 404" "?n \<noteq> 400" by blast
  then show ?thesis
  proof cases
    case n404
    show ?thesis
    proof (cases "200 \<le> k \<and> k < 300")
      case True
      then show ?thesis
        using c1 cs n404 v1 k st2
        by (cases "verified_as_create vr")
           (auto simp: create_payment_session_def dict_get_Some eq_int_int in_2xx_int
              dest: verified_as_create_status)
    next
      case False
      then show ?thesis
        using c1 cs n404 v1 k st2
        by (auto simp: create_payment_session_def dict_get_Some eq_int_int in_2xx_int)
    qed
  next
    case n400
    have sd: "dict_setdefault cr ''diagnostics'' (JObj []) = cr @ [(''diagnostics'', JObj [])]"
      using cd by (simp add: dict_setdefault_def)
    have cs': "map_of (cr @ [(''diagnostics'', x)]) ''status_code'' = map_of cr ''status_code''" for x
      using cs by (simp add: map_add_def)
    show ?thesis
      using c1 cs n400 v1 d3 st3 sd cd cs'
      by (simp add: create_payment_session_def dict_get_Some eq_int_int set_item2_last
            dict_set_fresh del: map_of_append)
  next
    case other
    then show ?thesis
      using c1 cs st1
      by (simp add: create_payment_session_def dict_get_Some eq_int_int)
  qed
qed


subsection \<open>The three stages\<close>

lemma create_stage_result:
  "\<exists>cr s1 n. create_stage e s a c m [] = ([(''create'', JObj cr)], s1)
     \<and> map_of cr ''status_code'' = Some (JInt n)
     \<and> step (plain (facilitator_url s)) s s1
     \<and> (case fst (create_payment_session e s a c m) of
           Inl x \<Rightarrow> JObj cr = error_result x
         | Inr d \<Rightarrow> cr = d)"
proof -
  obtain r s1 where r: "create_payment_session e s a c m = (r, s1)"
    "step (plain (facilitator_url s)) s s1"
    "case r of Inl _ \<Rightarrow> True | Inr d \<Rightarrow> \<exists>n. map_of d ''status_code'' = Some (JInt n)"
    using create_payment_session_result [of e s a c m] by blast
  show ?thesis
  proof (cases r)
    case (Inl x)
    with r show ?thesis by (simp add: create_stage_def error_result_def)
  next
    case (Inr d)
    with r show ?thesis by (auto simp: create_stage_def)
  qed
qed

lemma not_pred_filter: "list_all (\<lambda>r. \<not> P r) xs \<Longrightarrow> filter P xs = []"
  by (induction xs) auto

lemma verify_body_result:
  assumes cs: "map_of cr ''status_code'' = Some (JInt n)"
  shows "\<exists>v s2 k new. verify_body e s a c m t [(''create'', JObj cr)] = (Inr v, s2)
     \<and> map_of v ''status_code'' = Some (JInt k)
     \<and> same_config s s2
     \<and> http_log s2 = http_log s @ new
     \<and> list_all (\<lambda>r. targets (facilitator_url s) r \<and> \<not> is_settle_post r) new
     \<and> list_all (\<lambda>r. is_signed_verify r \<longrightarrow> r = signature_request e s a c m) new
     \<and> length (filter is_signed_verify new)
         = (if (n = 400 \<or> n = 404)
               \<and> \<not> (200 \<le> outcome_status (http e (http_log s)
                              (post_request s ''verify'' a c (memo_metadata m) t))
                     \<and> outcome_status (http e (http_log s)
                              (post_request s ''verify'' a c (memo_metadata m) t)) < 300)
            then 1 else 0)"
proof -
  let ?u = "facilitator_url s"
  let ?md = "memo_metadata m"
  let ?k = "outcome_status (http e (http_log s) (post_request s ''verify'' a c ?md t))"
  let ?res = "[(''create'', JObj cr)]"
  have g: "py_get (dict_get ?res ''create'' (JObj [])) ''status_code'' (JInt 0) = Inr (JInt n)"
    using cs by (simp add: dict_get_def)
  obtain vr s1 probes where v1: "paid_api_call e s ''verify'' a c ?md t = (Inr vr, s1)"
    and vs: "map_of vr ''status_code'' = Some (JInt ?k)"
    and vd: "map_of vr ''diagnostics'' = None"
    and vc: "same_config s s1"
    and vl: "http_log s1 = http_log s @ post_request s ''verify'' a c ?md t # probes"
    and vp: "list_all (\<lambda>r. r = list_request s 5) probes"
    using paid_api_call_result [of e s "''verify''" a c ?md t] by blast
  have pl: "list_all (plain ?u) (post_request s ''verify'' a c ?md t # probes)"
    using vp by (auto simp: list_all_iff list_request_plain post_verify_plain)
  then have pl1: "list_all (\<lambda>r. targets ?u r \<and> \<not> is_settle_post r)
                    (post_request s ''verify'' a c ?md t # probes)"
    by (auto simp: list_all_iff plain_def)
  have pl2: "filter is_signed_verify (post_request s ''verify'' a c ?md t # probes) = []"
    using pl by (intro not_pred_filter) (auto simp: list_all_iff plain_def)
  have pl3: "list_all (\<lambda>r. is_signed_verify r \<longrightarrow> r = signature_request e s a c m)
               (post_request s ''verify'' a c ?md t # probes)"
    using pl by (auto simp: list_all_iff plain_def)
  obtain sr s2 sg where g1: "verify_with_signature e s1 a c m = (Inr sr, s2)"
    and gs: "\<exists>j. map_of sr ''status_code'' = Some (JInt j)"
    and gc: "same_config s1 s2"
    and gl: "http_log s2 = http_log s1
               @ [signed_request s1 (signed_body s1 (build_eip712_intent e s1 a c m) sg)]"
    using verify_with_signature_result [of e s1 a c m] by blast
  let ?rq = "signed_request s1 (signed_body s1 (build_eip712_intent e s1 a c m) sg)"
  have u1: "facilitator_url s1 = ?u" using vc by (simp add: same_config_def)
  have q1: "targets ?u ?rq" "\<not> is_settle_post ?rq" "is_signed_verify ?rq"
    using signed_request_targets [of s1] u1 signed_request_not_settle signed_request_is_signed
    by auto
  have rqe: "?rq = signature_request e s a c m"
    using verify_with_signature_log [of e s1 a c m] g1 gl
      signature_request_same_config [OF vc, of e a c m] by simp
  from gs obtain j where j: "map_of sr ''status_code'' = Some (JInt j)" by blast
  have c2: "same_config s s2" using vc gc by (rule same_config_trans)
  have ks: "\<And>x. map_of (vr @ [(''diagnostics'', x)]) ''status_code'' = Some (JInt ?k)"
    using vs by (simp add: map_add_def)
  consider (ok) "200 \<le> n \<and> n < 300"
    | (fb) "\<not> (200 \<le> n \<and> n < 300)" "n = 400 \<or> n = 404"
    | (skip) "\<not> (200 \<le> n \<and> n < 300)" "\<not> (n = 400 \<or> n = 404)"
    by blast
  then show ?thesis
  proof cases
    case ok
    then have "in_2xx (JInt n) = Inr True" by (simp add: in_2xx_int)
    then have "verify_body e s a c m t ?res = (Inr vr, s1)"
      using g v1 by (simp add: verify_body_def)
    moreover have "\<not> (n = 400 \<or> n = 404)" using ok by auto
    ultimately show ?thesis using vs vc vl pl1 pl2 pl3 by auto
  next
    case skip
    then have "in_2xx (JInt n) = Inr False" by (simp add: in_2xx_int)
    then have "verify_body e s a c m t ?res = (Inr skip_verify, s)"
      using g skip by (simp add: verify_body_def eq_int_int)
    then show ?thesis using skip by (simp add: skip_verify_def same_config_refl)
  next
    case fb
    then have inn: "in_2xx (JInt n) = Inr False" by (simp add: in_2xx_int)
    have en: "eq_int (JInt n) 400 \<or> eq_int (JInt n) 404" using fb by (simp add: eq_int_int)
    show ?thesis
    proof (cases "200 \<le> ?k \<and> ?k < 300")
      case True
      then have "in_2xx (JInt ?k) = Inr True" by (simp add: in_2xx_int)
      then have "verify_body e s a c m t ?res
                   = (Inr (try_attach vr [(''create_response'', JObj cr)]), s1)"
        using g v1 vs inn en by (simp add: verify_body_def dict_get_def)
      then show ?thesis
        using True vc vl pl1 pl2 pl3 ks by (simp add: try_attach_fresh1 [OF vd] del: map_of_append)
    next
      case False
      note nk = this
      then have ink: "in_2xx (JInt ?k) = Inr False" by (simp add: in_2xx_int)
      have log: "http_log s2 = http_log s @ (post_request s ''verify'' a c ?md t # probes) @ [?rq]"
        using gl vl by simp
      have la: "list_all (\<lambda>r. targets ?u r \<and> \<not> is_settle_post r)
                  ((post_request s ''verify'' a c ?md t # probes) @ [?rq])"
        using pl1 q1 by simp
      have la3: "list_all (\<lambda>r. is_signed_verify r \<longrightarrow> r = signature_request e s a c m)
                  ((post_request s ''verify'' a c ?md t # probes) @ [?rq])"
        using pl3 rqe by simp
      have cnt: "length (filter is_signed_verify
                   ((post_request s ''verify'' a c ?md t # probes) @ [?rq])) = 1"
      proof -
        have "filter is_signed_verify [?rq] = [?rq]" using q1 by simp
        then show ?thesis unfolding filter_append pl2 by simp
      qed
      show ?thesis
      proof (cases "200 \<le> j \<and> j < 300")
        case True
        then have "in_2xx (JInt j) = Inr True" by (simp add: in_2xx_int)
        then have "verify_body e s a c m t ?res = (Inr sr, s2)"
          using g v1 vs inn en ink g1 j
          by (simp add: verify_body_def dict_get_def)
        then show ?thesis using j c2 log la la3 cnt fb nk by (intro exI conjI) auto
      next
        case False
        then have "in_2xx (JInt j) = Inr False" by (simp add: in_2xx_int)
        then have "verify_body e s a c m t ?res
                     = (Inr (try_attach vr [(''create_response'', JObj cr),
                                            (''signature_attempt'', JObj sr)]), s2)"
          using g v1 vs inn en ink g1 j
          by (simp add: verify_body_def dict_get_def)
        then have "verify_body e s a c m t ?res
                     = (Inr (vr @ [(''diagnostics'', JObj [(''create_response'', JObj cr),
                                            (''signature_attempt'', JObj sr)])]), s2)"
          by (simp add: try_attach_fresh2 [OF vd])
        then show ?thesis using ks c2 log la la3 cnt fb nk by (intro exI conjI) auto
      qed
    qed
  qed
qed


lemma verify_body_signature:
  assumes cs: "map_of cr ''status_code'' = Some (JInt n)"
    and n: "n = 400 \<or> n = 404"
    and v1: "paid_api_call e s ''verify'' a c (memo_metadata m) t = (Inr vr, s1)"
    and vs: "map_of vr ''status_code'' = Some (JInt k)"
    and k: "\<not> (200 \<le> k \<and> k < 300)"
    and g1: "verify_with_signature e s1 a c m = (Inr sr, s2)"
    and gs: "map_of sr ''status_code'' = Some (JInt j)"
  shows "verify_body e s a c m t [(''create'', JObj cr)]
           = (Inr (if 200 \<le> j \<and> j < 300 then sr
                   else vr @ [(''diagnostics'', JObj [(''create_response'', JObj cr),
                                                      (''signature_attempt'', JObj sr)])]), s2)"
proof -
  have vd: "map_of vr ''diagnostics'' = None"
    using paid_api_call_result [of e s "''verify''" a c "memo_metadata m" t] v1 by auto
  have g: "py_get (dict_get [(''create'', JObj cr)] ''create'' (JObj [])) ''status_code'' (JInt 0)
             = Inr (JInt n)"
    using cs by (simp add: dict_get_def)
  have inn: "in_2xx (JInt n) = Inr False" using n by (auto simp: in_2xx_int)
  have en: "eq_int (JInt n) 400 \<or> eq_int (JInt n) 404" using n by (simp add: eq_int_int)
  have ink: "in_2xx (JInt k) = Inr False" using k by (simp add: in_2xx_int)
  show ?thesis
  proof (cases "200 \<le> j \<and> j < 300")
    case True
    then have "in_2xx (JInt j) = Inr True" by (simp add: in_2xx_int)
    then show ?thesis
      using True g v1 vs inn en ink g1 gs by (simp add: verify_body_def dict_get_def)
  next
    case False
    then have "in_2xx (JInt j) = Inr False" by (simp add: in_2xx_int)
    then show ?thesis
      using False g v1 vs inn en ink g1 gs
      by (auto simp: verify_body_def dict_get_def try_attach_fresh2 [OF vd])
  qed
qed

lemma settle_body_result:
  assumes vs: "map_of v ''status_code'' = Some (JInt k)"
  shows "\<exists>st s3 new i. settle_body e s a c m t [(''create'', JObj cr), (''verify'', JObj v)]
                           = (Inr st, s3)
     \<and> map_of st ''status_code'' = Some (JInt i)
     \<and> same_config s s3
     \<and> http_log s3 = http_log s @ new
     \<and> list_all (\<lambda>r. targets (facilitator_url s) r \<and> \<not> is_signed_verify r) new
     \<and> (if 200 \<le> k \<and> k < 300 then
           filter is_settle_post new = [post_request s ''settle'' a c (memo_metadata m) t]
           \<and> fst (paid_api_call e s ''settle'' a c (memo_metadata m) t) = Inr st
         else if k = 400 \<or> k = 404 then
           filter is_settle_post new = [post_request s ''settle'' a c (memo_metadata m) t]
           \<and> (\<exists>d. fst (paid_api_call e s ''settle'' a c (memo_metadata m) t) = Inr d
                  \<and> st = d @ [(''diagnostics'', JObj [(''verify_response'', JObj v)])])
         else new = [] \<and> st = skip_settle)"
proof -
  let ?u = "facilitator_url s"
  let ?md = "memo_metadata m"
  let ?res = "[(''create'', JObj cr), (''verify'', JObj v)]"
  let ?rq = "post_request s ''settle'' a c ?md t"
  have g: "py_get (dict_get ?res ''verify'' (JObj [])) ''status_code'' (JInt 0) = Inr (JInt k)"
    using vs by (simp add: dict_get_def)
  have gv: "dict_get ?res ''verify'' JNull = JObj v" by (simp add: dict_get_def)
  obtain d s1 probes where p1: "paid_api_call e s ''settle'' a c ?md t = (Inr d, s1)"
    and ps: "\<exists>i. map_of d ''status_code'' = Some (JInt i)"
    and pd: "map_of d ''diagnostics'' = None"
    and pc: "same_config s s1"
    and pl: "http_log s1 = http_log s @ ?rq # probes"
    and pp: "list_all (\<lambda>r. r = list_request s 5) probes"
    using paid_api_call_result [of e s "''settle''" a c ?md t] by blast
  from ps obtain i where i: "map_of d ''status_code'' = Some (JInt i)" by blast
  have fp: "filter is_settle_post probes = []"
    using pp list_request_plain [of s 5]
    by (intro not_pred_filter) (auto simp: list_all_iff plain_def)
  have f1: "filter is_settle_post (?rq # probes) = [?rq]"
    using fp post_settle_is_settle [of s a c ?md t] by simp
  have la: "list_all (\<lambda>r. targets ?u r \<and> \<not> is_signed_verify r) (?rq # probes)"
    using pp list_request_plain [of s 5] post_request_targets [of s] post_request_not_signed
    by (auto simp: list_all_iff plain_def)
  have is': "\<And>x. map_of (d @ [(''diagnostics'', x)]) ''status_code'' = Some (JInt i)"
    using i by (simp add: map_add_def)
  consider (ok) "200 \<le> k \<and> k < 300"
    | (fb) "\<not> (200 \<le> k \<and> k < 300)" "k = 400 \<or> k = 404"
    | (skip) "\<not> (200 \<le> k \<and> k < 300)" "\<not> (k = 400 \<or> k = 404)"
    by blast
  then show ?thesis
  proof cases
    case ok
    then have "in_2xx (JInt k) = Inr True" by (simp add: in_2xx_int)
    then have "settle_body e s a c m t ?res = (Inr d, s1)"
      using g p1 by (simp add: settle_body_def)
    then show ?thesis using ok i pc pl la f1 p1 by (intro exI conjI) auto
  next
    case fb
    then have "in_2xx (JInt k) = Inr False" by (simp add: in_2xx_int)
    moreover have "eq_int (JInt k) 400 \<or> eq_int (JInt k) 404" using fb by (simp add: eq_int_int)
    ultimately have "settle_body e s a c m t ?res
        = (Inr (d @ [(''diagnostics'', JObj [(''verify_response'', JObj v)])]), s1)"
      using g gv p1 by (simp add: settle_body_def try_attach_fresh1 [OF pd])
    then show ?thesis using fb is' pc pl la f1 p1 by (intro exI conjI) auto
  next
    case skip
    then have "in_2xx (JInt k) = Inr False" by (simp add: in_2xx_int)
    then have "settle_body e s a c m t ?res = (Inr skip_settle, s)"
      using g skip by (simp add: settle_body_def eq_int_int)
    then show ?thesis using skip by (simp add: skip_settle_def same_config_refl)
  qed
qed


subsection \<open>The flow as a whole\<close>

lemma flow_stages:
  obtains (stages) cr s1 n v s2 k new2 st s3 i new3 where
    "create_stage e s a c m [] = ([(''create'', JObj cr)], s1)"
    "map_of cr ''status_code'' = Some (JInt n)"
    "step (plain (facilitator_url s)) s s1"
    "case fst (create_payment_session e s a c m) of
       Inl x \<Rightarrow> JObj cr = error_result x | Inr d \<Rightarrow> cr = d"
    "verify_body e s1 a c m t [(''create'', JObj cr)] = (Inr v, s2)"
    "map_of v ''status_code'' = Some (JInt k)"
    "same_config s1 s2"
    "http_log s2 = http_log s1 @ new2"
    "list_all (\<lambda>r. targets (facilitator_url s) r \<and> \<not> is_settle_post r) new2"
    "length (filter is_signed_verify new2)
       = (if (n = 400 \<or> n = 404)
             \<and> \<not> (200 \<le> outcome_status (http e (http_log s1)
                            (post_request s1 ''verify'' a c (memo_metadata m) t))
                   \<and> outcome_status (http e (http_log s1)
                            (post_request s1 ''verify'' a c (memo_metadata m) t)) < 300)
          then 1 else 0)"
    "settle_body e s2 a c m t [(''create'', JObj cr), (''verify'', JObj v)] = (Inr st, s3)"
    "map_of st ''status_code'' = Some (JInt i)"
    "same_config s2 s3"
    "http_log s3 = http_log s2 @ new3"
    "list_all (\<lambda>r. targets (facilitator_url s) r \<and> \<not> is_signed_verify r) new3"
    "if 200 \<le> k \<and> k < 300 then
       filter is_settle_post new3 = [post_request s2 ''settle'' a c (memo_metadata m) t]
       \<and> fst (paid_api_call e s2 ''settle'' a c (memo_metadata m) t) = Inr st
     else if k = 400 \<or> k = 404 then
       filter is_settle_post new3 = [post_request s2 ''settle'' a c (memo_metadata m) t]
       \<and> (\<exists>d. fst (paid_api_call e s2 ''settle'' a c (memo_metadata m) t) = Inr d
              \<and> st = d @ [(''diagnostics'', JObj [(''verify_response'', JObj v)])])
     else new3 = [] \<and> st = skip_settle"
    "complete_payment_flow e s a c m t
       = (Inr [(''create'', JObj cr), (''verify'', JObj v), (''settle'', JObj st)], s3)"
    "list_all (\<lambda>r. is_signed_verify r \<longrightarrow> r = signature_request e s a c m) new2"
proof -
  obtain cr s1 n where c:
    "create_stage e s a c m [] = ([(''create'', JObj cr)], s1)"
    "map_of cr ''status_code'' = Some (JInt n)"
    "step (plain (facilitator_url s)) s s1"
    "case fst (create_payment_session e s a c m) of
       Inl x \<Rightarrow> JObj cr = error_result x | Inr d \<Rightarrow> cr = d"
    using create_stage_result [of e s a c m] by blast
  have u1: "facilitator_url s1 = facilitator_url s" using c(3) by (rule step_url)
  obtain v s2 k new2 where v:
    "verify_body e s1 a c m t [(''create'', JObj cr)] = (Inr v, s2)"
    "map_of v ''status_code'' = Some (JInt k)"
    "same_config s1 s2"
    "http_log s2 = http_log s1 @ new2"
    "list_all (\<lambda>r. targets (facilitator_url s1) r \<and> \<not> is_settle_post r) new2"
    "list_all (\<lambda>r. is_signed_verify r \<longrightarrow> r = signature_request e s1 a c m) new2"
    "length (filter is_signed_verify new2)
       = (if (n = 400 \<or> n = 404)
             \<and> \<not> (200 \<le> outcome_status (http e (http_log s1)
                            (post_request s1 ''verify'' a c (memo_metadata m) t))
                   \<and> outcome_status (http e (http_log s1)
                            (post_request s1 ''verify'' a c (memo_metadata m) t)) < 300)
          then 1 else 0)"
    using verify_body_result [OF c(2), of e s1 a c m t] by blast
  have u2: "facilitator_url s2 = facilitator_url s" using v(3) u1 by (simp add: same_config_def)
  have "same_config s s1" using c(3) by (simp add: step_def)
  then have sr: "signature_request e s1 a c m = signature_request e s a c m"
    by (rule signature_request_same_config)
  obtain st s3 new3 i where t:
    "settle_body e s2 a c m t [(''create'', JObj cr), (''verify'', JObj v)] = (Inr st, s3)"
    "map_of st ''status_code'' = Some (JInt i)"
    "same_config s2 s3"
    "http_log s3 = http_log s2 @ new3"
    "list_all (\<lambda>r. targets (facilitator_url s2) r \<and> \<not> is_signed_verify r) new3"
    "if 200 \<le> k \<and> k < 300 then
       filter is_settle_post new3 = [post_request s2 ''settle'' a c (memo_metadata m) t]
       \<and> fst (paid_api_call e s2 ''settle'' a c (memo_metadata m) t) = Inr st
     else if k = 400 \<or> k = 404 then
       filter is_settle_post new3 = [post_request s2 ''settle'' a c (memo_metadata m) t]
       \<and> (\<exists>d. fst (paid_api_call e s2 ''settle'' a c (memo_metadata m) t) = Inr d
              \<and> st = d @ [(''diagnostics'', JObj [(''verify_response'', JObj v)])])
     else new3 = [] \<and> st = skip_settle"
    using settle_body_result [OF v(2), of e s2 a c m t cr] by blast
  have flow: "complete_payment_flow e s a c m t
       = (Inr [(''create'', JObj cr), (''verify'', JObj v), (''settle'', JObj st)], s3)"
    using c(1) v(1) t(1)
    by (simp add: complete_payment_flow_def verify_stage_def settle_stage_def)
  show ?thesis
    using that [OF c v(1-4) _ v(7) t(1-4) _ t(6) flow] v(5) v(6) t(5) u1 u2 sr by simp
qed


subsection \<open>Sessions\<close>

lemma step_targets_from_parts:
  assumes "same_config s s1" "http_log s1 = http_log s @ new"
    "list_all (\<lambda>r. targets u r \<and> Q r) new"
  shows "step (targets u) s s1"
  using assms by (auto simp: step_def list_all_iff)

lemma complete_payment_flow_step:
  "step (targets (facilitator_url s)) s (snd (complete_payment_flow e s a c m t))"
proof (cases rule: flow_stages [of e s a c m t])
  case (stages cr s1 n v s2 k new2 st s3 i new3)
  let ?u = "facilitator_url s"
  have 1: "step (targets ?u) s s1"
    using stages(3) by (rule step_mono) (simp add: plain_def)
  have 2: "step (targets ?u) s1 s2"
    using stages(7,8,9) by (rule step_targets_from_parts)
  have 3: "step (targets ?u) s2 s3"
    using stages(13,14,15) by (rule step_targets_from_parts)
  have "step (targets ?u) s s3"
    using 1 2 3 by (blast intro: step_trans)
  with stages(17) show ?thesis by simp
qed

lemma run_call_step: "step (targets (facilitator_url s)) s (run_call e s cl)"
proof (cases cl)
  case (Discover t)
  have "step (targets (facilitator_url s)) s (snd (discover_facilitator e s t))"
    using discover_facilitator_step by (rule step_mono) (simp add: plain_def)
  with Discover show ?thesis by simp
next
  case (PaidApiCall p a c m t)
  then show ?thesis by (simp add: paid_api_call_targets)
next
  case (CreatePaymentSession a c m)
  obtain r s1 where "create_payment_session e s a c m = (r, s1)"
    "step (plain (facilitator_url s)) s s1"
    using create_payment_session_result [of e s a c m] by blast
  moreover from this(2) have "step (targets (facilitator_url s)) s s1"
    by (rule step_mono) (simp add: plain_def)
  ultimately show ?thesis using CreatePaymentSession by simp
next
  case (CompletePaymentFlow a c m t)
  then show ?thesis by (simp add: complete_payment_flow_step)
next
  case (VerifyWithSignature a c m)
  obtain d s1 sg where r: "verify_with_signature e s a c m = (Inr d, s1)" "same_config s s1"
    "http_log s1 = http_log s
       @ [signed_request s (signed_body s (build_eip712_intent e s a c m) sg)]"
    using verify_with_signature_result [of e s a c m] by blast
  then have "step (targets (facilitator_url s)) s s1"
    by (simp add: step_def signed_request_targets)
  with r VerifyWithSignature show ?thesis by simp
qed

lemma run_calls_step: "step (targets (facilitator_url s)) s (run_calls e s cs)"
proof (induction cs arbitrary: s)
  case Nil
  show ?case by (simp add: step_refl)
next
  case (Cons cl cs)
  have 1: "step (targets (facilitator_url s)) s (run_call e s cl)" by (rule run_call_step)
  then have "facilitator_url (run_call e s cl) = facilitator_url s" by (rule step_url)
  with Cons.IH [of "run_call e s cl"]
  have "step (targets (facilitator_url s)) (run_call e s cl) (run_calls e (run_call e s cl) cs)"
    by simp
  with 1 show ?case by (simp add: step_trans)
qed

subsection \<open>Construction\<close>

lemma list_request_probe_of: "list_request s t = probe_of (facilitator_url s) t"
  by (simp add: list_request_def probe_of_def)

lemma init_wallet_frame:
  "facilitator_url (snd (init_wallet e s)) = facilitator_url s
   \<and> http_log (snd (init_wallet e s)) = http_log s
   \<and> facilitator_info (snd (init_wallet e s)) = facilitator_info s"
  by (simp add: init_wallet_def Let_def split: option.splits sum.splits)

lemma fallback_to_mock_result:
  "facilitator_url (fallback_to_mock e s) = mock_url e
   \<and> http_log (fallback_to_mock e s) = http_log s @ [probe_of (mock_url e) 5]
   \<and> map_of (facilitator_info (fallback_to_mock e s)) ''status_code''
       = Some (JInt (outcome_status (http e (http_log s) (probe_of (mock_url e) 5))))"
  using discover_facilitator_result [of e "s\<lparr>facilitator_url := mock_url e\<rparr>" 5]
  by (auto simp: fallback_to_mock_def list_request_probe_of same_config_def)

lemma init_probe_unusable:
  assumes "probe_unusable (http e (http_log s) (probe_of (facilitator_url s) 3))"
  shows "init_probe e s
           = fallback_to_mock e (snd (discover_facilitator e s 3))"
proof -
  obtain info s1 where d: "discover_facilitator e s 3 = (Inr info, s1)"
    "map_of info ''status_code''
       = Some (JInt (outcome_status (http e (http_log s) (list_request s 3))))"
    using discover_facilitator_result [of e s 3] by blast
  let ?n = "outcome_status (http e (http_log s) (list_request s 3))"
  have "?n = 0 \<or> 500 \<le> ?n"
    using assms
    by (cases "http e (http_log s) (list_request s 3)")
       (auto simp: probe_unusable_def list_request_probe_of)
  then show ?thesis
    using d by (auto simp: init_probe_def dict_get_Some eq_int_int ge_500_def)
qed

lemma create_stage_state:
  "snd (create_stage e s a c m r) = snd (create_payment_session e s a c m)"
  by (simp add: create_stage_def split: prod.splits sum.splits)

lemma signed_request_signature_null:
  "signature_null (signed_request s (signed_body s st None))"
  by (simp add: signature_null_def signed_request_def signed_body_def opt_str_def)

lemma tool_result_status:
  "map_of (tool_result e out payload) ''status_code'' = Some (JInt (outcome_status out))"
  by (cases out) (simp_all add: tool_result_def)

lemma x402_payment_tool_result:
  "\<exists>d log. x402_payment_tool e a c m u k n = (Inr d, log)
     \<and> log \<noteq> []
     \<and> req_method (last log) = POST
     \<and> map_of d ''status_code'' = Some (JInt (outcome_status (http e (butlast log) (last log))))"
  by (auto simp: x402_payment_tool_def Let_def tool_result_status tool_request_def
        split: http_outcome.splits)

lemma status_zero_iff:
  assumes "\<forall>code tx hdrs. out = Response code tx hdrs \<longrightarrow> code \<noteq> 0"
  shows "outcome_status out = 0 \<longleftrightarrow> (\<exists>msg. out = Raised msg)"
  using assms by (cases out) auto

lemma paid_api_call_2xx:
  assumes "http e (http_log s) (post_request s p a c m t) = Response code tx hdrs"
    and "200 \<le> code \<and> code < 300"
  shows "fst (paid_api_call e s p a c m t)
           = Inr [(''status_code'', JInt code), (''payload'', json_or_text e tx),
                  (''headers'', headers_dict hdrs)]"
  using assms by (simp add: paid_api_call_def send_def Let_def)

section \<open>The claims\<close>

text \<open>
  C1. Whatever the amount, the currency and the memo, and whatever the facilitator, the
  parser and the signing library do, \<open>complete_payment_flow\<close> returns (it does not raise) a
  dictionary whose keys are exactly "create", "verify" and "settle", each bound to a
  dictionary with an integer \<open>status_code\<close>. When \<open>create_payment_session\<close> raises, the
  create stage is \<open>{status_code: 0, error: str(e)}\<close>; otherwise it is what the session
  returned.
\<close>

theorem complete_payment_flow_never_raises:
  "\<exists>cr v st n k i s'.
     complete_payment_flow e s amount currency memo timeout
       = (Inr [(''create'', JObj cr), (''verify'', JObj v), (''settle'', JObj st)], s')
     \<and> map_of cr ''status_code'' = Some (JInt n)
     \<and> map_of v ''status_code'' = Some (JInt k)
     \<and> map_of st ''status_code'' = Some (JInt i)
     \<and> (case fst (create_payment_session e s amount currency memo) of
           Inl x \<Rightarrow> cr = [(''status_code'', JInt 0), (''error'', JStr (str_exn x))]
         | Inr d \<Rightarrow> cr = d)"
proof (cases rule: flow_stages [of e s amount currency memo timeout])
  case (stages cr s1 n v s2 k new2 st s3 i new3)
  from stages(4) have "case fst (create_payment_session e s amount currency memo) of
           Inl x \<Rightarrow> cr = [(''status_code'', JInt 0), (''error'', JStr (str_exn x))]
         | Inr d \<Rightarrow> cr = d"
    by (simp add: error_result_def split: sum.splits)
  with stages(2,6,12,17) show ?thesis by blast
qed

text \<open>
  An instance in which the session does raise: the facilitator answers 404 to
  \<open>/create_payment\<close> and 200 with the JSON body \<open>true\<close> to \<open>/verify\<close>.
\<close>

theorem complete_payment_flow_never_raises_witness:
  "fst (create_payment_session world_create_404_verify_true ex_agent ''0.01'' ''USD'' (Some ''t''))
     = Inl (AttributeError ([CHR 0x27] @ ''bool'' @ [CHR 0x27] @ '' object has no attribute ''
              @ [CHR 0x27] @ ''get'' @ [CHR 0x27]))
   \<and> (\<exists>cr v st n k i s'.
     complete_payment_flow world_create_404_verify_true ex_agent ''0.01'' ''USD'' (Some ''t'') 30
       = (Inr [(''create'', JObj cr), (''verify'', JObj v), (''settle'', JObj st)], s')
     \<and> map_of cr ''status_code'' = Some (JInt n)
     \<and> map_of v ''status_code'' = Some (JInt k)
     \<and> map_of st ''status_code'' = Some (JInt i)
     \<and> (case fst (create_payment_session world_create_404_verify_true ex_agent ''0.01'' ''USD'' (Some ''t'')) of
           Inl x \<Rightarrow> cr = [(''status_code'', JInt 0), (''error'', JStr (str_exn x))]
         | Inr d \<Rightarrow> cr = d))"
proof
  show "fst (create_payment_session world_create_404_verify_true ex_agent ''0.01'' ''USD'' (Some ''t''))
     = Inl (AttributeError ([CHR 0x27] @ ''bool'' @ [CHR 0x27] @ '' object has no attribute ''
              @ [CHR 0x27] @ ''get'' @ [CHR 0x27]))"
    by code_simp
qed (rule complete_payment_flow_never_raises)

text \<open>
  C2, as stated, fails: after a successful create (2xx) a verify answered with 400 is
  final; no signed verify is sent although signing works, and the verify result carries
  no diagnostics.
\<close>

theorem no_signature_fallback_after_created:
  "sign_eip712 world_created_verify_400 ex_agent (build_eip712_intent world_created_verify_400 ex_agent ''0.01'' ''USD'' (Some ''t''))
     = Inr (Some ''0x5166'')
   \<and> map_of (stage (flow_result (complete_payment_flow world_created_verify_400 ex_agent ''0.01'' ''USD'' (Some ''t'') 30))
        ''create'') ''status_code'' = Some (JInt 200)
   \<and> map_of (stage (flow_result (complete_payment_flow world_created_verify_400 ex_agent ''0.01'' ''USD'' (Some ''t'') 30))
        ''verify'') ''status_code'' = Some (JInt 400)
   \<and> map_of (stage (flow_result (complete_payment_flow world_created_verify_400 ex_agent ''0.01'' ''USD'' (Some ''t'') 30))
        ''verify'') ''diagnostics'' = None
   \<and> length (filter is_signed_verify
        (http_log (snd (complete_payment_flow world_created_verify_400 ex_agent ''0.01'' ''USD'' (Some ''t'') 30)))) = 0"
  by code_simp

text \<open>
  C2, amended. When the create stage reports 400 or 404 and the plain verify of the
  verify stage is not 2xx, the signed verify fallback is sent exactly once in the whole
  run, whether or not a signing capability is configured. If its status is 2xx its result
  is the verify stage; otherwise the verify stage is the plain verify result with
  \<open>diagnostics = {create_response, signature_attempt}\<close>.
\<close>

theorem signature_fallback_once_after_failed_create:
  assumes flow: "complete_payment_flow e s amount currency memo timeout = (Inr result, s')"
    and cr: "map_of result ''create'' = Some (JObj cr)"
            "map_of cr ''status_code'' = Some (JInt n)"
            "n = 400 \<or> n = 404"
    and pv: "paid_api_call e (snd (create_payment_session e s amount currency memo))
               ''verify'' amount currency (memo_metadata memo) timeout = (Inr vr, s2)"
            "map_of vr ''status_code'' = Some (JInt k)"
            "\<not> (200 \<le> k \<and> k < 300)"
    and sg: "verify_with_signature e s2 amount currency memo = (Inr sr, s3)"
            "map_of sr ''status_code'' = Some (JInt j)"
  shows "(\<exists>new. http_log s' = http_log s @ new \<and> length (filter is_signed_verify new) = 1)
       \<and> map_of result ''verify''
           = Some (JObj (if 200 \<le> j \<and> j < 300 then sr
                         else vr @ [(''diagnostics'',
                                     JObj [(''create_response'', JObj cr),
                                           (''signature_attempt'', JObj sr)])]))"
proof (cases rule: flow_stages [of e s amount currency memo timeout])
  case (stages cr' s1 n' v s2' k' new2 st s3' i new3)
  let ?md = "memo_metadata memo"
  from stages(17) flow
  have r: "result = [(''create'', JObj cr'), (''verify'', JObj v), (''settle'', JObj st)]"
    and s': "s' = s3'" by simp_all
  with cr(1) have "cr' = cr" by simp
  with stages(2) cr(2) have "n' = n" by simp
  have s1: "s1 = snd (create_payment_session e s amount currency memo)"
    using stages(1) create_stage_state [of e s amount currency memo "[]"] by simp
  have k: "k = outcome_status (http e (http_log s1) (post_request s1 ''verify'' amount currency ?md timeout))"
    using paid_api_call_result [of e s1 "''verify''" amount currency ?md timeout] pv(1,2) s1
    by auto
  have "length (filter is_signed_verify new2) = 1"
    using stages(10) k pv(3) cr(3) \<open>n' = n\<close> by simp
  moreover from stages(3) obtain new1 where n1: "http_log s1 = http_log s @ new1"
    "list_all (plain (facilitator_url s)) new1"
    by (auto simp: step_def)
  have "filter is_signed_verify new1 = []"
    using n1(2) by (intro not_pred_filter) (auto simp: list_all_iff plain_def)
  moreover have "filter is_signed_verify new3 = []"
    using stages(15) by (intro not_pred_filter) (auto simp: list_all_iff)
  ultimately have "length (filter is_signed_verify (new1 @ new2 @ new3)) = 1" by simp
  moreover have "http_log s' = http_log s @ (new1 @ new2 @ new3)"
    using s' stages(14) stages(8) n1(1) by simp
  ultimately have a: "\<exists>new. http_log s' = http_log s @ new \<and> length (filter is_signed_verify new) = 1"
    by blast
  have "verify_body e s1 amount currency memo timeout [(''create'', JObj cr)]
           = (Inr (if 200 \<le> j \<and> j < 300 then sr
                   else vr @ [(''diagnostics'', JObj [(''create_response'', JObj cr),
                                                      (''signature_attempt'', JObj sr)])]), s3)"
    using verify_body_signature [OF cr(2,3) _ pv(2,3) sg] pv(1) s1 by simp
  with stages(5) \<open>cr' = cr\<close>
  have "v = (if 200 \<le> j \<and> j < 300 then sr
                   else vr @ [(''diagnostics'', JObj [(''create_response'', JObj cr),
                                                      (''signature_attempt'', JObj sr)])])"
    by simp
  with a r show ?thesis by simp
qed

theorem signature_fallback_once_after_failed_create_witness:
  "map_of (stage (flow_result (complete_payment_flow world_create_400_verify_400 ex_agent ''0.01'' ''USD'' (Some ''t'') 30))
      ''create'') ''status_code'' = Some (JInt 400)
   \<and> (\<exists>new. http_log (snd (complete_payment_flow world_create_400_verify_400 ex_agent ''0.01'' ''USD'' (Some ''t'') 30))
               = http_log ex_agent @ new \<and> length (filter is_signed_verify new) = 1)
   \<and> (\<exists>diag sr. map_of (stage (flow_result
           (complete_payment_flow world_create_400_verify_400 ex_agent ''0.01'' ''USD'' (Some ''t'') 30)) ''verify'')
           ''diagnostics'' = Some (JObj diag)
         \<and> map_of diag ''signature_attempt'' = Some (JObj sr)
         \<and> map_of sr ''status_code'' = Some (JInt 401))"
proof -
  let ?e = world_create_400_verify_400
  let ?f = "complete_payment_flow ?e ex_agent ''0.01'' ''USD'' (Some ''t'') 30"
  let ?s1 = "snd (create_payment_session ?e ex_agent ''0.01'' ''USD'' (Some ''t''))"
  let ?p = "paid_api_call ?e ?s1 ''verify'' ''0.01'' ''USD'' (memo_metadata (Some ''t'')) 30"
  let ?g = "verify_with_signature ?e (snd ?p) ''0.01'' ''USD'' (Some ''t'')"
  have 1: "?f = (Inr (flow_result ?f), snd ?f)" by code_simp
  have 2: "map_of (flow_result ?f) ''create'' = Some (JObj (stage (flow_result ?f) ''create''))"
    by code_simp
  have 3: "map_of (stage (flow_result ?f) ''create'') ''status_code'' = Some (JInt 400)"
    by code_simp
  have 4: "(400::int) = 400 \<or> (400::int) = 404" by simp
  have 5: "?p = (Inr (flow_result ?p), snd ?p)" by code_simp
  have 6: "map_of (flow_result ?p) ''status_code'' = Some (JInt 400)" by code_simp
  have 7: "\<not> (200 \<le> (400::int) \<and> (400::int) < 300)" by simp
  have 8: "?g = (Inr (flow_result ?g), snd ?g)" by code_simp
  have 9: "map_of (flow_result ?g) ''status_code'' = Some (JInt 401)" by code_simp
  have 10: "map_of (flow_result ?p) ''diagnostics'' = None" by code_simp
  show ?thesis
    using 3 9 10 signature_fallback_once_after_failed_create [OF 1 2 3 4 5 6 7 8 9]
    by (simp add: stage_def map_of_snoc_fresh del: map_of_append)
qed

text \<open>The other direction: no signed verify is sent unless the create stage reports 400 or 404.\<close>

lemma no_signature_fallback_unless_create_failed:
  assumes flow: "complete_payment_flow e s amount currency memo timeout = (Inr result, s')"
    and cr: "map_of result ''create'' = Some (JObj cr)"
            "map_of cr ''status_code'' = Some (JInt n)"
            "n \<noteq> 400" "n \<noteq> 404"
  shows "\<exists>new. http_log s' = http_log s @ new \<and> filter is_signed_verify new = []"
proof (cases rule: flow_stages [of e s amount currency memo timeout])
  case (stages cr' s1 n' v s2 k new2 st s3 i new3)
  from stages(17) flow
  have r: "result = [(''create'', JObj cr'), (''verify'', JObj v), (''settle'', JObj st)]"
    and s': "s' = s3" by simp_all
  with cr(1) have "cr' = cr" by simp
  with stages(2) cr(2) have "n' = n" by simp
  then have "filter is_signed_verify new2 = []"
    using stages(10) cr(3,4) by simp
  moreover from stages(3) obtain new1 where n1: "http_log s1 = http_log s @ new1"
    "list_all (plain (facilitator_url s)) new1"
    by (auto simp: step_def)
  have "filter is_signed_verify new1 = []"
    using n1(2) by (intro not_pred_filter) (auto simp: list_all_iff plain_def)
  moreover have "filter is_signed_verify new3 = []"
    using stages(15) by (intro not_pred_filter) (auto simp: list_all_iff)
  ultimately have "filter is_signed_verify (new1 @ new2 @ new3) = []" by simp
  moreover have "http_log s' = http_log s @ (new1 @ new2 @ new3)"
    using s' stages(14) stages(8) n1(1) by simp
  ultimately show ?thesis by blast
qed

text \<open>
  C3. If the verify stage ends with a status outside [200,300) and other than 400 and 404,
  the settle stage is exactly \<open>{status_code: 0, error: "verify failed; skipping settle"}\<close>
  and the run has sent no POST to \<open>/settle\<close>.
\<close>

theorem settle_skipped_when_verify_failed:
  assumes "complete_payment_flow e s amount currency memo timeout = (Inr result, s')"
    and "map_of result ''verify'' = Some (JObj v)"
    and "map_of v ''status_code'' = Some (JInt k)"
    and "\<not> (200 \<le> k \<and> k < 300)" and "k \<noteq> 400" and "k \<noteq> 404"
  shows "map_of result ''settle''
           = Some (JObj [(''status_code'', JInt 0),
                         (''error'', JStr ''verify failed; skipping settle'')])
         \<and> (\<exists>new. http_log s' = http_log s @ new \<and> filter is_settle_post new = [])"
proof (cases rule: flow_stages [of e s amount currency memo timeout])
  case (stages cr s1 n v' s2 k' new2 st s3 i new3)
  from stages(17) assms(1)
  have r: "result = [(''create'', JObj cr), (''verify'', JObj v'), (''settle'', JObj st)]"
    and s': "s' = s3" by simp_all
  with assms(2) have "v' = v" by simp
  with stages(6) assms(3) have "k' = k" by simp
  with stages(16) assms(4-6) have n3: "new3 = []" and st: "st = skip_settle" by simp_all
  from stages(3) obtain new1 where n1: "http_log s1 = http_log s @ new1"
    "list_all (plain (facilitator_url s)) new1"
    by (auto simp: step_def)
  have "filter is_settle_post new1 = []"
    using n1(2) by (intro not_pred_filter) (auto simp: list_all_iff plain_def)
  moreover have "filter is_settle_post new2 = []"
    using stages(9) by (intro not_pred_filter) (auto simp: list_all_iff)
  ultimately have "filter is_settle_post (new1 @ new2) = []" by simp
  moreover have "http_log s' = http_log s @ (new1 @ new2)"
    using s' stages(14) stages(8) n1(1) n3 by simp
  ultimately show ?thesis using r st by (simp add: skip_settle_def)
qed

theorem settle_skipped_when_verify_failed_witness:
  "map_of (stage (flow_result (complete_payment_flow world_verify_500 ex_agent ''0.01'' ''USD'' (Some ''t'') 30))
       ''verify'') ''status_code'' = Some (JInt 500)
   \<and> map_of (flow_result (complete_payment_flow world_verify_500 ex_agent ''0.01'' ''USD'' (Some ''t'') 30)) ''settle''
           = Some (JObj [(''status_code'', JInt 0),
                         (''error'', JStr ''verify failed; skipping settle'')])
   \<and> (\<exists>new. http_log (snd (complete_payment_flow world_verify_500 ex_agent ''0.01'' ''USD'' (Some ''t'') 30))
               = http_log ex_agent @ new \<and> filter is_settle_post new = [])"
proof -
  let ?f = "complete_payment_flow world_verify_500 ex_agent ''0.01'' ''USD'' (Some ''t'') 30"
  have 1: "?f = (Inr (flow_result ?f), snd ?f)" by code_simp
  have 2: "map_of (flow_result ?f) ''verify'' = Some (JObj (stage (flow_result ?f) ''verify''))"
    by code_simp
  have 3: "map_of (stage (flow_result ?f) ''verify'') ''status_code'' = Some (JInt 500)"
    by code_simp
  show ?thesis
    using 3 settle_skipped_when_verify_failed [OF 1 2 3] by simp
qed

text \<open>
  C4. With 404 for \<open>/create_payment\<close> and a 2xx answer to \<open>/verify\<close> whose body is a JSON
  value that is not an object (here \<open>true\<close>), \<open>create_payment_session\<close> raises
  \<open>AttributeError\<close> while it builds the "verified-as-create" result, after both POSTs
  were sent; in the flow the create stage then has status 0 and no payload.
\<close>

theorem create_404_verify_non_object_payload:
  "http world_create_404_verify_true [post_request ex_agent ''create_payment'' ''0.01'' ''USD'' (memo_metadata (Some ''t'')) 30]
       (post_request ex_agent ''verify'' ''0.01'' ''USD'' (memo_metadata (Some ''t'')) 30)
     = Response 200 ''true'' []
   \<and> create_payment_session world_create_404_verify_true ex_agent ''0.01'' ''USD'' (Some ''t'')
     = (Inl (AttributeError ([CHR 0x27] @ ''bool'' @ [CHR 0x27] @ '' object has no attribute ''
              @ [CHR 0x27] @ ''get'' @ [CHR 0x27])),
        ex_agent\<lparr>http_log :=
          [post_request ex_agent ''create_payment'' ''0.01'' ''USD'' (memo_metadata (Some ''t'')) 30,
           post_request ex_agent ''verify'' ''0.01'' ''USD'' (memo_metadata (Some ''t'')) 30]\<rparr>)
   \<and> map_of (stage (flow_result (complete_payment_flow world_create_404_verify_true ex_agent ''0.01'' ''USD'' (Some ''t'') 30))
        ''create'') ''status_code'' = Some (JInt 0)
   \<and> map_of (stage (flow_result (complete_payment_flow world_create_404_verify_true ex_agent ''0.01'' ''USD'' (Some ''t'') 30))
        ''create'') ''payload'' = None"
  by code_simp

text \<open>
  When the body is a JSON object, or not JSON at all (then the payload is \<open>{"text": ...}\<close>),
  the session returns the verify status and a payload labelled "verified-as-create".
  The verify request is built from the same arguments as the create request.
\<close>

lemma create_404_verify_object_payload:
  assumes c404: "outcome_status (http e (http_log s)
                   (post_request s ''create_payment'' a c (memo_metadata m) 30)) = 404"
    and s1: "s1 = snd (paid_api_call e s ''create_payment'' a c (memo_metadata m) 30)"
    and v: "http e (http_log s1) (post_request s ''verify'' a c (memo_metadata m) 30)
              = Response code tx hdrs"
    and ok: "200 \<le> code \<and> code < 300"
    and obj: "json_or_text e tx = JObj p"
  shows "\<exists>pl. fst (create_payment_session e s a c m)
               = Inr [(''status_code'', JInt code), (''payload'', JObj pl),
                      (''headers'', headers_dict hdrs)]
            \<and> map_of pl ''status'' = Some (JStr ''verified-as-create'')"
proof -
  let ?md = "memo_metadata m"
  obtain cr s1' where c1: "paid_api_call e s ''create_payment'' a c ?md 30 = (Inr cr, s1')"
    and cs: "map_of cr ''status_code'' = Some (JInt (outcome_status (http e (http_log s)
               (post_request s ''create_payment'' a c ?md 30))))"
    and cc: "same_config s s1'"
    using paid_api_call_result [of e s "''create_payment''" a c ?md 30] by blast
  have e1: "s1' = s1" using c1 s1 by simp
  have rq: "post_request s1 ''verify'' a c ?md 30 = post_request s ''verify'' a c ?md 30"
    using cc e1 same_config_requests(1) by blast
  have vr: "fst (paid_api_call e s1 ''verify'' a c ?md 30)
           = Inr [(''status_code'', JInt code), (''payload'', JObj p),
                  (''headers'', headers_dict hdrs)]"
    using paid_api_call_2xx [of e s1 "''verify''" a c ?md 30 code tx hdrs] v ok rq obj
    by simp
  obtain s2 where v2: "paid_api_call e s1 ''verify'' a c ?md 30
     = (Inr [(''status_code'', JInt code), (''payload'', JObj p), (''headers'', headers_dict hdrs)], s2)"
    using vr by (cases "paid_api_call e s1 ''verify'' a c ?md 30") simp
  have i2: "in_2xx (JInt code) = Inr True" using ok by (simp add: in_2xx_int)
  show ?thesis
    using c1 cs c404 e1 v2 i2
    by (simp add: create_payment_session_def dict_get_def eq_int_int verified_as_create_def)
qed

text \<open>
  C5. If the first probe of \<open>{primary}/list\<close> fails at transport level or answers with
  status 0 or at least 500, the constructor returns an agent whose base URL is the mock
  URL, having sent exactly the primary probe and one probe of the mock, whose outcome
  (failure included) is only recorded in the discovery cache. In any later sequence of
  calls of the public methods the base URL stays the mock URL and every request goes
  below it.
\<close>

theorem discovery_fallback_to_mock:
  assumes "probe_unusable (http e [] (probe_of (primary_url e url_arg) 3))"
  shows "\<exists>s. init_agent e url_arg key_arg network_arg = Inr s
           \<and> facilitator_url s = mock_url e
           \<and> http_log s = [probe_of (primary_url e url_arg) 3, probe_of (mock_url e) 5]
           \<and> map_of (facilitator_info s) ''status_code''
               = Some (JInt (outcome_status
                    (http e [probe_of (primary_url e url_arg) 3] (probe_of (mock_url e) 5))))
           \<and> facilitator_url (run_calls e s calls) = mock_url e
           \<and> (\<exists>new. http_log (run_calls e s calls) = http_log s @ new
                  \<and> list_all (targets (mock_url e)) new)"
proof -
  define s0 where "s0 =
     \<lparr>facilitator_url = rstrip_slash (getenv_default e ''FACILITATOR_URL'' url_arg),
      wallet_private_key = py_or (py_or key_arg (getenv e ''X402_PRIVATE_KEY''))
                             (getenv e ''PAYAI_WALLET_PRIVATE_KEY''),
      network = py_or network_arg (getenv e ''X402_NETWORK''),
      wallet_address = None, facilitator_info = [], http_log = []\<rparr>"
  define s1 where "s1 = (if truthy_str (wallet_private_key s0)
                then (case init_wallet e s0 of (Inl _, s') \<Rightarrow> s' | (Inr _, s') \<Rightarrow> s')
                else s0)"
  have s1_alt: "s1 = (if truthy_str (wallet_private_key s0) then snd (init_wallet e s0) else s0)"
    by (simp add: s1_def split: prod.splits sum.splits)
  have init: "init_agent e url_arg key_arg network_arg = Inr (init_probe e s1)"
    by (simp add: init_agent_def s0_def s1_def Let_def)
  have u1: "facilitator_url s1 = primary_url e url_arg" and l1: "http_log s1 = []"
    using init_wallet_frame [of e s0] by (simp_all add: s1_alt s0_def primary_url_def)
  have un: "probe_unusable (http e (http_log s1) (probe_of (facilitator_url s1) 3))"
    using assms u1 l1 by simp
  obtain info s2 where d: "discover_facilitator e s1 3 = (Inr info, s2)"
    "http_log s2 = http_log s1 @ [list_request s1 3]"
    using discover_facilitator_result [of e s1 3] by blast
  let ?s = "init_probe e s1"
  have sp: "?s = fallback_to_mock e s2"
    using init_probe_unusable [OF un] d by simp
  have l2: "http_log s2 = [probe_of (primary_url e url_arg) 3]"
    using d(2) l1 u1 by (simp add: list_request_probe_of)
  have a: "facilitator_url ?s = mock_url e"
    and b: "http_log ?s = [probe_of (primary_url e url_arg) 3, probe_of (mock_url e) 5]"
    and c: "map_of (facilitator_info ?s) ''status_code''
               = Some (JInt (outcome_status
                    (http e [probe_of (primary_url e url_arg) 3] (probe_of (mock_url e) 5))))"
    using fallback_to_mock_result [of e s2] sp l2 by simp_all
  have "step (targets (facilitator_url ?s)) ?s (run_calls e ?s calls)"
    by (rule run_calls_step)
  then have "facilitator_url (run_calls e ?s calls) = mock_url e"
    and "\<exists>new. http_log (run_calls e ?s calls) = http_log ?s @ new
                  \<and> list_all (targets (mock_url e)) new"
    using a by (auto simp: step_def same_config_def)
  with init a b c show ?thesis by blast
qed

theorem discovery_fallback_to_mock_witness:
  "probe_unusable (http world_down [] (probe_of (primary_url world_down ''https://facilitator.payai.network'') 3))
   \<and> (\<exists>s. init_agent world_down ''https://facilitator.payai.network'' None None = Inr s
           \<and> facilitator_url s = ''http://127.0.0.1:8000''
           \<and> map req_url (http_log s)
               = [''https://facilitator.payai.network/list'', ''http://127.0.0.1:8000/list'']
           \<and> map_of (facilitator_info s) ''status_code'' = Some (JInt 0)
           \<and> facilitator_url (run_calls world_down s [CompletePaymentFlow ''0.01'' ''USD'' None 30])
               = ''http://127.0.0.1:8000''
           \<and> (\<exists>new. http_log (run_calls world_down s [CompletePaymentFlow ''0.01'' ''USD'' None 30])
                       = http_log s @ new
                  \<and> list_all (targets ''http://127.0.0.1:8000'') new))"
proof -
  have h: "probe_unusable (http world_down []
             (probe_of (primary_url world_down ''https://facilitator.payai.network'') 3))"
    by (simp add: world_down_def probe_unusable_def)
  have m: "mock_url world_down = ''http://127.0.0.1:8000''"
    by (simp add: mock_url_def getenv_default_def world_down_def)
  have p: "primary_url world_down ''https://facilitator.payai.network''
             = ''https://facilitator.payai.network''"
    by (simp add: primary_url_def getenv_default_def world_down_def rstrip_slash_def)
  show ?thesis
    using h discovery_fallback_to_mock [OF h, of None None
            "[CompletePaymentFlow ''0.01'' ''USD'' None 30]"]
    unfolding m p
    by (auto simp: probe_of_def rstrip_slash_def world_down_def)
qed

text \<open>
  C6. Provided no HTTP response carries the status 0 (status codes have three digits),
  the result of \<open>paid_api_call\<close>, of \<open>verify_with_signature\<close> and of \<open>x402_payment_tool\<close>
  carries the literal status of the response to the (last) POST, and its \<open>status_code\<close> is
  0 exactly when that POST raised instead of returning a response.
\<close>

theorem status_zero_iff_transport_failure:
  assumes nz: "\<forall>log rq code tx hdrs. http e log rq = Response code tx hdrs \<longrightarrow> code \<noteq> 0"
  shows "(\<exists>d s1. paid_api_call e s path amount currency metadata timeout = (Inr d, s1)
            \<and> map_of d ''status_code''
                = Some (JInt (outcome_status (http e (http_log s)
                     (post_request s path amount currency metadata timeout))))
            \<and> (map_of d ''status_code'' = Some (JInt 0)
                 \<longleftrightarrow> (\<exists>msg. http e (http_log s)
                        (post_request s path amount currency metadata timeout) = Raised msg)))
       \<and> (\<exists>d s1. verify_with_signature e s amount currency memo = (Inr d, s1)
            \<and> map_of d ''status_code''
                = Some (JInt (outcome_status (http e (http_log s)
                     (signature_request e s amount currency memo))))
            \<and> (map_of d ''status_code'' = Some (JInt 0)
                 \<longleftrightarrow> (\<exists>msg. http e (http_log s)
                        (signature_request e s amount currency memo) = Raised msg)))
       \<and> (\<exists>d log. x402_payment_tool e amount currency memo url_arg key_arg network_arg = (Inr d, log)
            \<and> log \<noteq> []
            \<and> req_method (last log) = POST
            \<and> map_of d ''status_code''
                = Some (JInt (outcome_status (http e (butlast log) (last log))))
            \<and> (map_of d ''status_code'' = Some (JInt 0)
                 \<longleftrightarrow> (\<exists>msg. http e (butlast log) (last log) = Raised msg)))"
proof -
  have z: "outcome_status (http e log rq) = 0 \<longleftrightarrow> (\<exists>msg. http e log rq = Raised msg)" for log rq
    using nz by (intro status_zero_iff) blast
  have 1: "\<exists>d s1. paid_api_call e s path amount currency metadata timeout = (Inr d, s1)
            \<and> map_of d ''status_code''
                = Some (JInt (outcome_status (http e (http_log s)
                     (post_request s path amount currency metadata timeout))))
            \<and> (map_of d ''status_code'' = Some (JInt 0)
                 \<longleftrightarrow> (\<exists>msg. http e (http_log s)
                        (post_request s path amount currency metadata timeout) = Raised msg))"
    using paid_api_call_result [of e s path amount currency metadata timeout] z by auto
  have 2: "\<exists>d s1. verify_with_signature e s amount currency memo = (Inr d, s1)
            \<and> map_of d ''status_code''
                = Some (JInt (outcome_status (http e (http_log s)
                     (signature_request e s amount currency memo))))
            \<and> (map_of d ''status_code'' = Some (JInt 0)
                 \<longleftrightarrow> (\<exists>msg. http e (http_log s)
                        (signature_request e s amount currency memo) = Raised msg))"
    using verify_with_signature_result [of e s amount currency memo] z
    by (auto simp: signature_request_eq)
  have 3: "\<exists>d log. x402_payment_tool e amount currency memo url_arg key_arg network_arg = (Inr d, log)
            \<and> log \<noteq> []
            \<and> req_method (last log) = POST
            \<and> map_of d ''status_code''
                = Some (JInt (outcome_status (http e (butlast log) (last log))))
            \<and> (map_of d ''status_code'' = Some (JInt 0)
                 \<longleftrightarrow> (\<exists>msg. http e (butlast log) (last log) = Raised msg))"
    using x402_payment_tool_result [of e amount currency memo url_arg key_arg network_arg] z
    by auto
  from 1 2 3 show ?thesis by (intro conjI)
qed

theorem status_zero_iff_transport_failure_witness:
  "map_of (flow_result (paid_api_call world_mixed ex_agent ''create_payment'' ''0.01'' ''USD'' None 30))
        ''status_code'' = Some (JInt 503)
   \<and> map_of (flow_result (paid_api_call world_mixed ex_agent ''verify'' ''0.01'' ''USD'' None 30))
        ''status_code'' = Some (JInt 0)
   \<and> (\<exists>msg. http world_mixed (http_log ex_agent) (post_request ex_agent ''verify'' ''0.01'' ''USD'' None 30)
         = Raised msg)
   \<and> map_of (flow_result (verify_with_signature world_mixed ex_agent ''0.01'' ''USD'' None))
        ''status_code'' = Some (JInt 404)"
proof -
  have h: "\<forall>log rq code tx hdrs. http world_mixed log rq = Response code tx hdrs \<longrightarrow> code \<noteq> 0"
    by (simp add: world_mixed_def ex_env_def scripted_def reply_def)
  have a: "outcome_status (http world_mixed (http_log ex_agent)
             (post_request ex_agent ''create_payment'' ''0.01'' ''USD'' None 30)) = 503"
    by code_simp
  have b: "outcome_status (http world_mixed (http_log ex_agent)
             (post_request ex_agent ''verify'' ''0.01'' ''USD'' None 30)) = 0"
    by code_simp
  have c: "outcome_status (http world_mixed (http_log ex_agent)
             (signature_request world_mixed ex_agent ''0.01'' ''USD'' None)) = 404"
    by code_simp
  show ?thesis
    using h a b c
      status_zero_iff_transport_failure [OF h, of ex_agent "''create_payment''" "''0.01''" "''USD''" None 30 None None None None]
      status_zero_iff_transport_failure [OF h, of ex_agent "''verify''" "''0.01''" "''USD''" None 30 None None None None]
    by (auto simp: flow_result_def)
qed

text \<open>
  C7. When \<open>eth_account\<close> is absent, or signing the intent raises, \<open>_sign_eip712\<close> returns
  \<open>None\<close>; \<open>verify_with_signature\<close> still sends its one POST to \<open>/verify\<close>, whose body has
  \<open>signature\<close> null next to the intent; and the flow returns its result, every signed
  verify it sent carrying a null signature.
\<close>

theorem signing_failure_is_not_fatal:
  assumes "Account e = None
           \<or> (\<exists>lib x. Account e = Some lib
                 \<and> sign_typed lib (JObj (build_eip712_intent e s amount currency memo))
                      (with_0x (wallet_private_key s)) = Inl x)"
  shows "sign_eip712 e s (build_eip712_intent e s amount currency memo) = Inr None
       \<and> (\<exists>d s1 body. verify_with_signature e s amount currency memo = (Inr d, s1)
            \<and> http_log s1 = http_log s
                 @ [\<lparr>req_method = POST, req_url = rstrip_slash (facilitator_url s) @ ''/verify'',
                      req_headers = [(''Content-Type'', ''application/json'')],
                      req_json = Some (JObj body), req_timeout = 30\<rparr>]
            \<and> map_of body ''signature'' = Some JNull
            \<and> map_of body ''eip712''
                = Some (JObj (build_eip712_intent e s amount currency memo)))
       \<and> (\<exists>result s' new. complete_payment_flow e s amount currency memo timeout = (Inr result, s')
            \<and> http_log s' = http_log s @ new
            \<and> list_all (\<lambda>r. \<not> is_signed_verify r \<or> signature_null r) new)"
proof -
  let ?st = "build_eip712_intent e s amount currency memo"
  have sn: "sign_eip712 e s ?st = Inr None"
    using assms by (auto simp: sign_eip712_def Let_def)
  then have rq: "signature_request e s amount currency memo
                   = signed_request s (signed_body s ?st None)"
    by (rule signature_request_eq)
  have 2: "\<exists>d s1 body. verify_with_signature e s amount currency memo = (Inr d, s1)
            \<and> http_log s1 = http_log s
                 @ [\<lparr>req_method = POST, req_url = rstrip_slash (facilitator_url s) @ ''/verify'',
                      req_headers = [(''Content-Type'', ''application/json'')],
                      req_json = Some (JObj body), req_timeout = 30\<rparr>]
            \<and> map_of body ''signature'' = Some JNull
            \<and> map_of body ''eip712'' = Some (JObj ?st)"
    using verify_with_signature_result [of e s amount currency memo] sn
    by (auto simp: signed_request_def signed_body_def opt_str_def json_headers_def)
  have 3: "\<exists>result s' new. complete_payment_flow e s amount currency memo timeout = (Inr result, s')
            \<and> http_log s' = http_log s @ new
            \<and> list_all (\<lambda>r. \<not> is_signed_verify r \<or> signature_null r) new"
  proof (cases rule: flow_stages [of e s amount currency memo timeout])
    case (stages cr s1 n v s2 k new2 st s3 i new3)
    from stages(3) obtain new1 where n1: "http_log s1 = http_log s @ new1"
      "list_all (plain (facilitator_url s)) new1"
      by (auto simp: step_def)
    have a: "list_all (\<lambda>r. \<not> is_signed_verify r \<or> signature_null r) new1"
      using n1(2) by (auto simp: list_all_iff plain_def)
    have b: "list_all (\<lambda>r. \<not> is_signed_verify r \<or> signature_null r) new2"
      using stages(18) rq signed_request_signature_null [of s ?st]
      by (auto simp: list_all_iff)
    have c: "list_all (\<lambda>r. \<not> is_signed_verify r \<or> signature_null r) new3"
      using stages(15) by (auto simp: list_all_iff)
    have "http_log s3 = http_log s @ (new1 @ new2 @ new3)"
      using stages(14) stages(8) n1(1) by simp
    moreover have "list_all (\<lambda>r. \<not> is_signed_verify r \<or> signature_null r) (new1 @ new2 @ new3)"
      using a b c by simp
    ultimately show ?thesis using stages(17) by blast
  qed
  from sn 2 3 show ?thesis by (intro conjI)
qed

theorem signing_failure_is_not_fatal_witness:
  "sign_typed (ex_lib False) (JObj (build_eip712_intent world_signer_fails ex_agent ''0.01'' ''USD'' (Some ''t'')))
      (with_0x (wallet_private_key ex_agent)) = Inl (LibraryError ''signing failed'')
   \<and> sign_eip712 world_signer_fails ex_agent (build_eip712_intent world_signer_fails ex_agent ''0.01'' ''USD'' (Some ''t''))
       = Inr None
   \<and> length (filter is_signed_verify
        (http_log (snd (complete_payment_flow world_signer_fails ex_agent ''0.01'' ''USD'' (Some ''t'') 30)))) = 1
   \<and> list_all signature_null (filter is_signed_verify
        (http_log (snd (complete_payment_flow world_signer_fails ex_agent ''0.01'' ''USD'' (Some ''t'') 30))))
   \<and> map_of (stage (flow_result (complete_payment_flow world_signer_fails ex_agent ''0.01'' ''USD'' (Some ''t'') 30))
        ''settle'') ''status_code'' = Some (JInt 200)"
proof -
  let ?f = "complete_payment_flow world_signer_fails ex_agent ''0.01'' ''USD'' (Some ''t'') 30"
  have h: "Account world_signer_fails = None
           \<or> (\<exists>lib x. Account world_signer_fails = Some lib
                 \<and> sign_typed lib (JObj (build_eip712_intent world_signer_fails ex_agent ''0.01'' ''USD'' (Some ''t'')))
                      (with_0x (wallet_private_key ex_agent)) = Inl x)"
    by (simp add: world_signer_fails_def ex_env_def ex_lib_def)
  have a: "sign_typed (ex_lib False) (JObj (build_eip712_intent world_signer_fails ex_agent ''0.01'' ''USD'' (Some ''t'')))
      (with_0x (wallet_private_key ex_agent)) = Inl (LibraryError ''signing failed'')"
    by (simp add: ex_lib_def)
  have b: "length (filter is_signed_verify (http_log (snd ?f))) = 1" by code_simp
  have c: "map_of (stage (flow_result ?f) ''settle'') ''status_code'' = Some (JInt 200)"
    by code_simp
  have l: "http_log ex_agent = []" by (simp add: ex_agent_def)
  from signing_failure_is_not_fatal [OF h, of 30]
  have d: "sign_eip712 world_signer_fails ex_agent (build_eip712_intent world_signer_fails ex_agent ''0.01'' ''USD'' (Some ''t''))
             = Inr None"
    and "\<exists>result s' new. ?f = (Inr result, s') \<and> http_log s' = http_log ex_agent @ new
            \<and> list_all (\<lambda>r. \<not> is_signed_verify r \<or> signature_null r) new"
    by simp_all
  then have "list_all (\<lambda>r. \<not> is_signed_verify r \<or> signature_null r) (http_log (snd ?f))"
    using l by auto
  then have "list_all signature_null (filter is_signed_verify (http_log (snd ?f)))"
    by (auto simp: list_all_iff)
  with a b c d show ?thesis by simp
qed

text \<open>
  C8. The structured intent is a function of its arguments alone, and whatever they are
  its primary type is "Payment" and its domain is the fixed one: name "x402 Payment",
  version "1", chain id 1 and the all-zero verifying contract.
\<close>

theorem build_eip712_intent_fixed_domain:
  "map_of (build_eip712_intent e s amount currency memo) ''primaryType'' = Some (JStr ''Payment'')
   \<and> map_of (build_eip712_intent e s amount currency memo) ''domain''
       = Some (JObj [(''name'', JStr ''x402 Payment''), (''version'', JStr ''1''),
                     (''chainId'', JInt 1),
                     (''verifyingContract'', JStr ''0x0000000000000000000000000000000000000000'')])"
  by (simp add: build_eip712_intent_def eip712_domain_def zero_address_def)

text \<open>
  C9, as stated, fails: the header value \<open>WzFd\<close> is the base64 encoding of the JSON text
  \<open>[1]\<close>; a base64/JSON decode yields \<open>[1]\<close>, while \<open>decode_x_payment_response\<close> returns the
  raw value in a mapping.
\<close>

theorem decode_x_payment_response_no_base64:
  "b64decode ''WzFd'' = Some ''[1]''
   \<and> decode_base64_json world_offline ''WzFd'' = JArr [JInt 1]
   \<and> decode_x_payment_response world_offline ''WzFd'' = JObj [(''transaction'', JStr ''WzFd'')]"
  by code_simp

text \<open>
  C9, amended. \<open>decode_x_payment_response\<close> applies the JSON parser to the header value as
  it is, with no base64 step: it returns the parsed value (of any JSON type) when the
  value parses, and \<open>{"transaction": header_value}\<close> otherwise.
\<close>

theorem decode_x_payment_response_json_only:
  "(loads e header_value = Some j \<longrightarrow> decode_x_payment_response e header_value = j)
   \<and> (loads e header_value = None
        \<longrightarrow> decode_x_payment_response e header_value
              = JObj [(''transaction'', JStr header_value)])"
  by (simp add: decode_x_payment_response_def)

theorem decode_x_payment_response_json_only_witness:
  "loads world_offline ''[1]'' = Some (JArr [JInt 1])
   \<and> decode_x_payment_response world_offline ''[1]'' = JArr [JInt 1]
   \<and> loads world_offline ''tx_12345'' = None
   \<and> decode_x_payment_response world_offline ''tx_12345'' = JObj [(''transaction'', JStr ''tx_12345'')]"
proof -
  have a: "loads world_offline ''[1]'' = Some (JArr [JInt 1])"
    by (simp add: world_offline_def ex_env_def ex_loads_def)
  have b: "loads world_offline ''tx_12345'' = None"
    by (simp add: world_offline_def ex_env_def ex_loads_def)
  show ?thesis
    using a b
      decode_x_payment_response_json_only [of world_offline "''[1]''" "JArr [JInt 1]"]
      decode_x_payment_response_json_only [of world_offline "''tx_12345''" JNull]
    by simp
qed

text \<open>
  C10. If the verify stage ends with status 400 or 404, the run sends exactly one POST to
  \<open>/settle\<close>, with the flow's arguments; the settle stage is not the skip sentinel, and
  its \<open>diagnostics.verify_response\<close> is the verify stage.
\<close>

theorem settle_attempted_after_verify_400_404:
  assumes "complete_payment_flow e s amount currency memo timeout = (Inr result, s')"
    and "map_of result ''verify'' = Some (JObj v)"
    and "map_of v ''status_code'' = Some (JInt k)"
    and "k = 400 \<or> k = 404"
  shows "\<exists>st diag new.
           map_of result ''settle'' = Some (JObj st)
         \<and> JObj st \<noteq> JObj [(''status_code'', JInt 0),
                             (''error'', JStr ''verify failed; skipping settle'')]
         \<and> map_of st ''diagnostics'' = Some (JObj diag)
         \<and> map_of diag ''verify_response'' = Some (JObj v)
         \<and> http_log s' = http_log s @ new
         \<and> filter is_settle_post new
              = [post_request s ''settle'' amount currency (memo_metadata memo) timeout]"
proof (cases rule: flow_stages [of e s amount currency memo timeout])
  case (stages cr s1 n v' s2 k' new2 st s3 i new3)
  from stages(17) assms(1)
  have r: "result = [(''create'', JObj cr), (''verify'', JObj v'), (''settle'', JObj st)]"
    and s': "s' = s3" by simp_all
  with assms(2) have "v' = v" by simp
  with stages(6) assms(3) have "k' = k" by simp
  with stages(16) assms(4) \<open>v' = v\<close> obtain d where
    f3: "filter is_settle_post new3
           = [post_request s2 ''settle'' amount currency (memo_metadata memo) timeout]"
    and d: "fst (paid_api_call e s2 ''settle'' amount currency (memo_metadata memo) timeout) = Inr d"
    and st: "st = d @ [(''diagnostics'', JObj [(''verify_response'', JObj v)])]"
    by auto
  have dd: "map_of d ''diagnostics'' = None"
    using paid_api_call_result [of e s2 "''settle''" amount currency "memo_metadata memo" timeout] d
    by auto
  from stages(3) obtain new1 where n1: "http_log s1 = http_log s @ new1"
    "list_all (plain (facilitator_url s)) new1" and c1: "same_config s s1"
    by (auto simp: step_def)
  have c2: "same_config s s2" using c1 stages(7) by (rule same_config_trans)
  have rq: "post_request s2 ''settle'' amount currency (memo_metadata memo) timeout
              = post_request s ''settle'' amount currency (memo_metadata memo) timeout"
    using c2 by (rule same_config_requests)
  have "filter is_settle_post new1 = []"
    using n1(2) by (intro not_pred_filter) (auto simp: list_all_iff plain_def)
  moreover have "filter is_settle_post new2 = []"
    using stages(9) by (intro not_pred_filter) (auto simp: list_all_iff)
  ultimately have "filter is_settle_post (new1 @ new2 @ new3)
      = [post_request s ''settle'' amount currency (memo_metadata memo) timeout]"
    using f3 rq by simp
  moreover have "http_log s' = http_log s @ (new1 @ new2 @ new3)"
    using s' stages(14) stages(8) n1(1) by simp
  moreover have "map_of st ''diagnostics'' = Some (JObj [(''verify_response'', JObj v)])"
    using dd st by (simp add: map_of_snoc_fresh del: map_of_append)
  moreover have "JObj st \<noteq> JObj [(''status_code'', JInt 0),
                             (''error'', JStr ''verify failed; skipping settle'')]"
  proof
    assume "JObj st = JObj [(''status_code'', JInt 0),
                             (''error'', JStr ''verify failed; skipping settle'')]"
    then have "map_of st ''diagnostics'' = None" by simp
    with \<open>map_of st ''diagnostics'' = Some (JObj [(''verify_response'', JObj v)])\<close>
    show False by simp
  qed
  ultimately show ?thesis using r by (intro exI conjI) auto
qed

theorem settle_attempted_after_verify_400_404_witness:
  "map_of (stage (flow_result (complete_payment_flow world_verify_404 ex_agent ''0.01'' ''USD'' (Some ''t'') 30))
       ''verify'') ''status_code'' = Some (JInt 404)
   \<and> (\<exists>st diag new.
           map_of (flow_result (complete_payment_flow world_verify_404 ex_agent ''0.01'' ''USD'' (Some ''t'') 30))
             ''settle'' = Some (JObj st)
         \<and> JObj st \<noteq> JObj [(''status_code'', JInt 0),
                             (''error'', JStr ''verify failed; skipping settle'')]
         \<and> map_of st ''diagnostics'' = Some (JObj diag)
         \<and> map_of diag ''verify_response''
             = Some (JObj (stage (flow_result
                  (complete_payment_flow world_verify_404 ex_agent ''0.01'' ''USD'' (Some ''t'') 30)) ''verify''))
         \<and> http_log (snd (complete_payment_flow world_verify_404 ex_agent ''0.01'' ''USD'' (Some ''t'') 30))
             = http_log ex_agent @ new
         \<and> filter is_settle_post new
              = [post_request ex_agent ''settle'' ''0.01'' ''USD'' (memo_metadata (Some ''t'')) 30])"
proof -
  let ?f = "complete_payment_flow world_verify_404 ex_agent ''0.01'' ''USD'' (Some ''t'') 30"
  have 1: "?f = (Inr (flow_result ?f), snd ?f)" by code_simp
  have 2: "map_of (flow_result ?f) ''verify'' = Some (JObj (stage (flow_result ?f) ''verify''))"
    by code_simp
  have 3: "map_of (stage (flow_result ?f) ''verify'') ''status_code'' = Some (JInt 404)"
    by code_simp
  have 4: "(404::int) = 400 \<or> (404::int) = 404" by simp
  show ?thesis
    using 3 settle_attempted_after_verify_400_404 [OF 1 2 3 4] by simp
qed

end
